theory Spec2Isabelle
  imports Main "HOL-Library.Sublist"
begin

section \<open>The subprocess transport of claude-code-sdk-go\<close>

text \<open>
  A shallow embedding of \<^verbatim>\<open>subprocess_transport.go\<close> (package \<^verbatim>\<open>claudecode\<close>):
  the resolution of the CLI executable, the launch of the subprocess, the decoding of its
  output stream and the teardown of the transport.

  Strings are byte strings, as Go's are. Functions of Go's standard library and the
  operating system are not part of the repository: the file system, the search path and
  the outcome of system calls are parameters of the model (records of type \<open>os_env\<close>,
  \<open>launch_env\<close>, \<open>close_env\<close>), and the library functions whose results the code
  inspects are modelled from their documentation where that is stated.
\<close>

subsection \<open>Errors\<close>

text \<open>
  The sentinel errors of \<^verbatim>\<open>errors.go\<close> that the transport uses. An error built with
  \<^verbatim>\<open>fmt.Errorf("%w: ...", sentinel, ...)\<close> is \<open>Wrapped\<close>; one built with
  \<^verbatim>\<open>errors.New\<close> or \<^verbatim>\<open>fmt.Errorf\<close> without \<^verbatim>\<open>%w\<close> is \<open>Plain\<close>; an error
  handed back by the operating system or the library is \<open>OSError\<close>.
\<close>

datatype sentinel = ErrClaudeNotInstalled | ErrNotConnected | ErrConnectionFailed

datatype error = Sentinel sentinel | Plain string | Wrapped sentinel string | OSError string

fun sentinel_text :: "sentinel \<Rightarrow> string" where
  "sentinel_text ErrClaudeNotInstalled = ''claude-code: CLI not installed''"
| "sentinel_text ErrNotConnected = ''claude-code: not connected''"
| "sentinel_text ErrConnectionFailed = ''claude-code: connection failed''"

fun error_message :: "error \<Rightarrow> string" where
  "error_message (Sentinel s) = sentinel_text s"
| "error_message (Plain m) = m"
| "error_message (Wrapped s m) = sentinel_text s @ '': '' @ m"
| "error_message (OSError m) = m"

subsection \<open>Configuration\<close>

text \<open>
  The fields of \<^verbatim>\<open>Options\<close> that the transport reads. \<^verbatim>\<open>MCPServers\<close> is kept as
  an association list from server name to an opaque server definition \<open>'srv\<close>: the
  transport only tests it for emptiness and hands it to \<^verbatim>\<open>json.Marshal\<close>.
\<close>

record 'srv Options =
  SystemPrompt :: string
  AppendSystemPrompt :: string
  Model :: string
  MaxTurns :: int
  PermissionMode :: string
  AllowedTools :: "string list"
  DisallowedTools :: "string list"
  WorkingDirectory :: string
  MCPServers :: "(string \<times> 'srv) list"
  Continue :: bool
  Resume :: string
  Settings :: string
  AddDirs :: "string list"
  CLIPath :: string

subsection \<open>The operating system as seen by \<^verbatim>\<open>findCLI\<close>\<close>

text \<open>
  \<open>stat_ok p\<close>: \<^verbatim>\<open>os.Stat(p)\<close> returns a nil error. \<open>lookPath n\<close>: the path found by
  \<^verbatim>\<open>exec.LookPath(n)\<close>, \<open>None\<close> when it returns an error. \<open>getenv\<close>: \<^verbatim>\<open>os.Getenv\<close>.
  \<open>path_Join\<close>: \<^verbatim>\<open>filepath.Join\<close> of two elements.
\<close>

record os_env =
  stat_ok :: "string \<Rightarrow> bool"
  lookPath :: "string \<Rightarrow> string option"
  getenv :: "string \<Rightarrow> string"
  path_Join :: "string \<Rightarrow> string \<Rightarrow> string"

abbreviation LF :: char where "LF \<equiv> CHR 0x0A"
abbreviation DQ :: char where "DQ \<equiv> CHR 0x22"

text \<open>The fixed list of well-known install locations, in the order of the source.\<close>

definition locations :: "os_env \<Rightarrow> string list" where
  "locations env =
    [ path_Join env (getenv env ''HOME'') ''.npm-global/bin/claude'',
      ''/usr/local/bin/claude'',
      path_Join env (getenv env ''HOME'') ''.local/bin/claude'',
      path_Join env (getenv env ''HOME'') ''node_modules/.bin/claude'',
      path_Join env (getenv env ''HOME'') ''.yarn/bin/claude'' ]"

text \<open>
  The calls \<^verbatim>\<open>findCLI\<close> makes to the operating system, in the order it makes them, are
  part of its result, so that which steps were tried can be stated.
\<close>

datatype probe = Stat string | LookPath string

text \<open>The loop \<^verbatim>\<open>for _, loc := range locations\<close>: the first location that exists.\<close>

fun stat_locations :: "os_env \<Rightarrow> string list \<Rightarrow> probe list \<times> string option" where
  "stat_locations env [] = ([], None)"
| "stat_locations env (loc # locs) =
     (if stat_ok env loc then ([Stat loc], Some loc)
      else (case stat_locations env locs of (ps, r) \<Rightarrow> (Stat loc # ps, r)))"

definition node_missing_message :: string where
  "node_missing_message =
     ''Claude Code requires Node.js, which is not installed.'' @ [LF, LF] @
     ''Install Node.js from: https://nodejs.org/'' @ [LF] @
     [LF] @ ''After installing Node.js, install Claude Code:'' @ [LF] @
     ''  npm install -g @anthropic-ai/claude-code''"

definition package_missing_message :: string where
  "package_missing_message =
     ''Claude Code not found. Install with:'' @ [LF] @
     ''  npm install -g @anthropic-ai/claude-code'' @ [LF] @
     [LF] @ ''If already installed locally, try:'' @ [LF] @
     ''  export PATH='' @ [DQ] @ ''$HOME/node_modules/.bin:$PATH'' @ [DQ] @ [LF] @
     [LF] @ ''Or specify the path when creating the client:'' @ [LF] @
     ''  New(WithCLIPath('' @ [DQ] @ ''/path/to/claude'' @ [DQ] @ ''))''"

definition findCLI_run :: "os_env \<Rightarrow> 'srv Options \<Rightarrow> probe list \<times> (error + string)" where
  "findCLI_run env opts =
    (if CLIPath opts \<noteq> [] then
       (if stat_ok env (CLIPath opts) then ([Stat (CLIPath opts)], Inr (CLIPath opts))
        else ([Stat (CLIPath opts)],
              Inl (Plain (''claude CLI not found at specified path: '' @ CLIPath opts))))
     else case lookPath env ''claude'' of
       Some path \<Rightarrow> ([LookPath ''claude''], Inr path)
     | None \<Rightarrow>
        (case stat_locations env (locations env) of
           (ps, Some loc) \<Rightarrow> (LookPath ''claude'' # ps, Inr loc)
         | (ps, None) \<Rightarrow>
            (if lookPath env ''node'' = None
             then (LookPath ''claude'' # ps @ [LookPath ''node''], Inl (Plain node_missing_message))
             else (LookPath ''claude'' # ps @ [LookPath ''node''],
                   Inl (Plain package_missing_message)))))"

definition findCLI :: "os_env \<Rightarrow> 'srv Options \<Rightarrow> error + string" where
  "findCLI env opts = snd (findCLI_run env opts)"

subsection \<open>A concrete operating system, for evaluation\<close>

text \<open>
  \<^verbatim>\<open>filepath.Join\<close> on two elements that are already clean: an empty element is
  ignored, the others are joined by the separator.
\<close>

definition join_simple :: "string \<Rightarrow> string \<Rightarrow> string" where
  "join_simple a b = (if a = [] then b else if b = [] then a else a @ ''/'' @ b)"

text \<open>
  A machine whose existing files are \<open>files\<close>, whose search path resolves the names
  of \<open>path_hits\<close>, and whose \<^verbatim>\<open>HOME\<close> is \<^verbatim>\<open>/home/u\<close>.
\<close>

definition example_os :: "string list \<Rightarrow> (string \<times> string) list \<Rightarrow> os_env" where
  "example_os files path_hits =
     \<lparr> stat_ok = (\<lambda>p. p \<in> set files),
       lookPath = map_of path_hits,
       getenv = (\<lambda>k. if k = ''HOME'' then ''/home/u'' else []),
       path_Join = join_simple \<rparr>"

text \<open>The zero value of \<^verbatim>\<open>Options\<close>.\<close>

definition example_options :: "unit Options" where
  "example_options =
     \<lparr> SystemPrompt = [], AppendSystemPrompt = [], Model = [], MaxTurns = 0,
       PermissionMode = [], AllowedTools = [], DisallowedTools = [], WorkingDirectory = [],
       MCPServers = [], Continue = False, Resume = [], Settings = [], AddDirs = [],
       CLIPath = [] \<rparr>"

subsection \<open>Building the command line\<close>

text \<open>\<^verbatim>\<open>fmt.Sprintf("%d", n)\<close> and \<^verbatim>\<open>strings.Join\<close>.\<close>

fun decimal :: "nat \<Rightarrow> string" where
  "decimal n = (if n < 10 then [char_of (48 + n)] else decimal (n div 10) @ [char_of (48 + n mod 10)])"

declare decimal.simps [simp del]

definition fmt_d :: "int \<Rightarrow> string" where
  "fmt_d i = (if i < 0 then ''-'' @ decimal (nat (- i)) else decimal (nat i))"

fun strings_Join :: "string list \<Rightarrow> string \<Rightarrow> string" where
  "strings_Join [] sep = []"
| "strings_Join [x] sep = x"
| "strings_Join (x # y # ys) sep = x @ sep @ strings_Join (y # ys) sep"

text \<open>
  What the launch of the subprocess meets outside the program: the file system and search
  path (\<open>os\<close>), \<^verbatim>\<open>json.Marshal\<close> of the MCP configuration, the name of the file made by
  \<^verbatim>\<open>os.CreateTemp\<close> or its error, the errors of \<^verbatim>\<open>StdinPipe\<close> and \<^verbatim>\<open>StdoutPipe\<close>
  (\<open>None\<close>: the pipe was made), the outcome of the fork and exec (an error, or the
  process id), and \<^verbatim>\<open>os.Environ()\<close>.
\<close>

record 'srv launch_env =
  os :: os_env
  marshal_mcp :: "(string \<times> 'srv) list \<Rightarrow> error + string"
  createTemp :: "error + string"
  stdinPipe :: "error option"
  stdoutPipe :: "error option"
  start :: "error + nat"
  environ :: "string list"

text \<open>The fields of \<^verbatim>\<open>exec.Cmd\<close> that the transport sets or reads.\<close>

record cmd =
  cmd_Path :: string
  cmd_Args :: "string list"
  cmd_Env :: "string list"
  cmd_Dir :: string
  cmd_Stderr :: "string option"
  cmd_Process :: "nat option"

subsection \<open>The transport\<close>

text \<open>
  Everything the transport does to the world outside its own fields is recorded, in order,
  in the field \<open>effects\<close>: closing a pipe end or the error-sink file, removing a file,
  killing and waiting for the process, closing a channel, and a panic.
\<close>

datatype effect =
    CloseStdin | CloseStdout | CloseStderrFile | RemoveFile string
  | KillProcess | WaitProcess | GraceTimeout
  | CloseReceiveDone | CloseMsgChan | Panic

datatype proc_status = NotStarted | Running | Exited | Killed

text \<open>
  \<^verbatim>\<open>SubprocessTransport\<close>. A pointer or interface field is modelled by whether it is set:
  \<open>stdin_set\<close>, \<open>stdout_set\<close>, \<open>promptChan_set\<close>, \<open>stderrFile\<close> (the name of the file),
  \<open>cmd\<close>. \<open>receiveDone_closed\<close> is the state of the channel \<^verbatim>\<open>receiveDone\<close>. The
  remaining fields describe the surroundings: \<open>decoders\<close> counts the goroutines started by
  \<^verbatim>\<open>Receive\<close> that have not returned, \<open>feeder_running\<close> says whether \<^verbatim>\<open>streamToStdin\<close>
  is running, \<open>proc\<close> is the state of the subprocess, \<open>temp_files\<close> the error-sink files
  present on disk, \<open>panicked\<close> whether a goroutine has panicked without recovery.
\<close>

record 'srv transport =
  options :: "'srv Options"
  cmd :: "cmd option"
  stdin_set :: bool
  stdout_set :: bool
  stderrFile :: "string option"
  connected :: bool
  isStreaming :: bool
  prompt :: string
  promptChan_set :: bool
  closeStdinAfterPrompt :: bool
  receiveDone_closed :: bool
  stdinClosed :: bool
  decoders :: nat
  feeder_running :: bool
  proc :: proc_status
  temp_files :: "string list"
  panicked :: bool
  effects :: "effect list"

definition NewSubprocessTransport :: "'srv Options \<Rightarrow> 'srv transport" where
  "NewSubprocessTransport opts =
     \<lparr> options = opts, cmd = None, stdin_set = False, stdout_set = False, stderrFile = None,
       connected = False, isStreaming = False, prompt = [], promptChan_set = False,
       closeStdinAfterPrompt = False, receiveDone_closed = False, stdinClosed = False,
       decoders = 0, feeder_running = False, proc = NotStarted, temp_files = [],
       panicked = False, effects = [] \<rparr>"

definition NewStreamingTransport :: "'srv Options \<Rightarrow> bool \<Rightarrow> bool \<Rightarrow> 'srv transport" where
  "NewStreamingTransport opts chan_set closeAfter =
     (NewSubprocessTransport opts)
       \<lparr> isStreaming := True, promptChan_set := chan_set, closeStdinAfterPrompt := closeAfter \<rparr>"

definition NewOneShotTransport :: "'srv Options \<Rightarrow> string \<Rightarrow> 'srv transport" where
  "NewOneShotTransport opts p = (NewSubprocessTransport opts) \<lparr> isStreaming := False, prompt := p \<rparr>"

definition emit :: "effect \<Rightarrow> 'srv transport \<Rightarrow> 'srv transport" where
  "emit e t = t \<lparr> effects := effects t @ [e] \<rparr>"

definition buildCommand :: "'srv launch_env \<Rightarrow> 'srv transport \<Rightarrow> error + string list" where
  "buildCommand lenv t =
    (let opts = options t in
     case findCLI (os lenv) opts of
       Inl err \<Rightarrow> Inl (Wrapped ErrClaudeNotInstalled (error_message err))
     | Inr cliPath \<Rightarrow>
        (let args =
           [cliPath, ''--output-format'', ''stream-json'', ''--verbose'']
           @ (if SystemPrompt opts \<noteq> [] then [''--system-prompt'', SystemPrompt opts] else [])
           @ (if AppendSystemPrompt opts \<noteq> []
              then [''--append-system-prompt'', AppendSystemPrompt opts] else [])
           @ (if AllowedTools opts \<noteq> []
              then [''--allowedTools'', strings_Join (AllowedTools opts) '',''] else [])
           @ (if MaxTurns opts > 0 then [''--max-turns'', fmt_d (MaxTurns opts)] else [])
           @ (if DisallowedTools opts \<noteq> []
              then [''--disallowedTools'', strings_Join (DisallowedTools opts) '',''] else [])
           @ (if Model opts \<noteq> [] then [''--model'', Model opts] else [])
           @ (if PermissionMode opts \<noteq> [] then [''--permission-mode'', PermissionMode opts] else [])
           @ (if Continue opts then [''--continue''] else [])
           @ (if Resume opts \<noteq> [] then [''--resume'', Resume opts] else [])
           @ (if Settings opts \<noteq> [] then [''--settings'', Settings opts] else [])
           @ concat (map (\<lambda>dir. [''--add-dir'', dir]) (AddDirs opts));
           mode = (if isStreaming t then [''--input-format'', ''stream-json'']
                   else [''--print'', prompt t])
         in if MCPServers opts \<noteq> [] then
              (case marshal_mcp lenv (MCPServers opts) of
                 Inl err \<Rightarrow> Inl (Plain (''failed to marshal MCP config: '' @ error_message err))
               | Inr configJSON \<Rightarrow> Inr (args @ [''--mcp-config'', configJSON] @ mode))
            else Inr (args @ mode)))"

text \<open>\<^verbatim>\<open>cleanup\<close>: close the handles that are set and remove the error-sink file.\<close>

definition cleanup :: "'srv transport \<Rightarrow> 'srv transport" where
  "cleanup t =
    (let t1 = (if stdin_set t then emit CloseStdin t else t);
         t2 = (if stdout_set t1 then emit CloseStdout t1 else t1)
     in case stderrFile t2 of
          None \<Rightarrow> t2
        | Some name \<Rightarrow>
            (emit (RemoveFile name) (emit CloseStderrFile t2))
              \<lparr> temp_files := removeAll name (temp_files t2) \<rparr>)"

text \<open>
  \<^verbatim>\<open>cmd.Start()\<close>. \<^verbatim>\<open>os.StartProcess\<close> checks the directory it is asked to change to
  before it forks, so a \<^verbatim>\<open>Dir\<close> that does not exist makes \<^verbatim>\<open>Start\<close> fail; otherwise the
  outcome is the one of the surroundings.
\<close>

definition cmd_Start :: "'srv launch_env \<Rightarrow> string \<Rightarrow> error + nat" where
  "cmd_Start lenv dir =
     (if dir \<noteq> [] \<and> \<not> stat_ok (os lenv) dir
      then Inl (OSError (''chdir '' @ dir @ '': no such file or directory''))
      else start lenv)"

definition Connect :: "'srv launch_env \<Rightarrow> 'srv transport \<Rightarrow> 'srv transport \<times> error option" where
  "Connect lenv t =
    (if connected t then (t, None)
     else case buildCommand lenv t of
       Inl err \<Rightarrow> (t, Some err)
     | Inr cmdArgs \<Rightarrow>
      (case createTemp lenv of
         Inl err \<Rightarrow>
           (t \<lparr> stderrFile := None \<rparr>,
            Some (Wrapped ErrConnectionFailed
                    (''failed to create stderr file: '' @ error_message err)))
       | Inr name \<Rightarrow>
         (let c = \<lparr> cmd_Path = hd cmdArgs, cmd_Args = cmdArgs,
                    cmd_Env = environ lenv @ [''CLAUDE_CODE_ENTRYPOINT=sdk-go''],
                    cmd_Dir = WorkingDirectory (options t),
                    cmd_Stderr = None, cmd_Process = None \<rparr>;
              t1 = t \<lparr> stderrFile := Some name, temp_files := name # temp_files t,
                       cmd := Some c \<rparr>
          in case stdinPipe lenv of
            Some err \<Rightarrow>
              (cleanup (t1 \<lparr> stdin_set := False \<rparr>),
               Some (Wrapped ErrConnectionFailed
                       (''failed to create stdin pipe: '' @ error_message err)))
          | None \<Rightarrow>
            (let t2 = t1 \<lparr> stdin_set := True \<rparr>
             in case stdoutPipe lenv of
               Some err \<Rightarrow>
                 (cleanup (t2 \<lparr> stdout_set := False \<rparr>),
                  Some (Wrapped ErrConnectionFailed
                          (''failed to create stdout pipe: '' @ error_message err)))
             | None \<Rightarrow>
               (let t3 = t2 \<lparr> stdout_set := True, cmd := Some (c \<lparr> cmd_Stderr := Some name \<rparr>) \<rparr>
                in case cmd_Start lenv (cmd_Dir c) of
                  Inl err \<Rightarrow>
                    (cleanup t3,
                     Some (if WorkingDirectory (options t) \<noteq> []
                              \<and> \<not> stat_ok (os lenv) (WorkingDirectory (options t))
                           then Wrapped ErrConnectionFailed
                                  (''working directory does not exist: ''
                                     @ WorkingDirectory (options t))
                           else Wrapped ErrConnectionFailed (error_message err)))
                | Inr pid \<Rightarrow>
                  (let t4 = t3 \<lparr> cmd := Some (c \<lparr> cmd_Stderr := Some name,
                                                  cmd_Process := Some pid \<rparr>),
                                 proc := Running, connected := True \<rparr>
                   in if isStreaming t \<and> promptChan_set t
                        then (t4 \<lparr> feeder_running := True \<rparr>, None)
                      else if \<not> isStreaming t
                        then ((emit CloseStdin t4) \<lparr> stdinClosed := True \<rparr>, None)
                      else (t4, None)))))))"

subsection \<open>The input feeder\<close>

text \<open>
  \<^verbatim>\<open>streamToStdin\<close> blocks in a \<^verbatim>\<open>select\<close>; what it sees there, in order, is a list
  of \<open>feeder_select\<close>: the context is done, a prompt arrives (and its encoding succeeds or
  fails), the prompt channel is closed, \<^verbatim>\<open>receiveDone\<close> is closed. The result is the
  number of prompts written and whether the function has returned (it has not when the
  list ends while it is still blocked).
\<close>

datatype feeder_select = CtxDone | Prompt bool | PromptClosed | ReceiveDoneSignal

fun await_session_end :: "feeder_select list \<Rightarrow> bool" where
  "await_session_end [] = False"
| "await_session_end (CtxDone # es) = True"
| "await_session_end (ReceiveDoneSignal # es) = True"
| "await_session_end (e # es) = await_session_end es"

fun streamToStdin :: "bool \<Rightarrow> feeder_select list \<Rightarrow> nat \<times> bool" where
  "streamToStdin closeAfter [] = (0, False)"
| "streamToStdin closeAfter (CtxDone # es) = (0, True)"
| "streamToStdin closeAfter (PromptClosed # es) =
     (if closeAfter then (0, True) else (0, await_session_end es))"
| "streamToStdin closeAfter (Prompt ok # es) =
     (if ok then (case streamToStdin closeAfter es of (n, r) \<Rightarrow> (Suc n, r)) else (0, True))"
| "streamToStdin closeAfter (ReceiveDoneSignal # es) = streamToStdin closeAfter es"

text \<open>The deferred function of \<^verbatim>\<open>streamToStdin\<close>, run when it returns.\<close>

definition feeder_exit :: "'srv transport \<Rightarrow> 'srv transport" where
  "feeder_exit t =
     (if \<not> feeder_running t then t
      else (if \<not> stdinClosed t then (emit CloseStdin t) \<lparr> stdinClosed := True \<rparr> else t)
             \<lparr> feeder_running := False \<rparr>)"

subsection \<open>Receive and the end of its goroutine\<close>

text \<open>
  \<^verbatim>\<open>Receive\<close> checks the connection and starts a goroutine. What the goroutine sends on
  the message channel is the subject of the decoder below; here only its start and its
  end matter.
\<close>

definition Receive :: "'srv transport \<Rightarrow> 'srv transport \<times> error option" where
  "Receive t =
     (if \<not> connected t then (t, Some (Sentinel ErrNotConnected))
      else (t \<lparr> decoders := decoders t + 1 \<rparr>, None))"

text \<open>
  The goroutine returns in one of two ways: from inside the loop when the context is done
  at a send (\<open>CtxCancelled\<close>), or after the scanner has stopped and \<^verbatim>\<open>cmd.Wait()\<close> has
  returned (\<open>StreamEnded\<close>). Deferred calls run last-in first-out: the function with
  \<^verbatim>\<open>recover()\<close>, registered last and only on the second way, runs first, while nothing is
  panicking; then \<^verbatim>\<open>close(t.receiveDone)\<close>, which panics when the channel is closed
  already (nothing recovers from that panic any more); then \<^verbatim>\<open>close(msgChan)\<close>.
\<close>

datatype exit_mode = StreamEnded | CtxCancelled

definition decoder_exit :: "exit_mode \<Rightarrow> 'srv transport \<Rightarrow> 'srv transport" where
  "decoder_exit m t =
     (if decoders t = 0 then t
      else
        (let t1 = (if m = StreamEnded
                   then (emit WaitProcess t) \<lparr> proc := (if proc t = Running then Exited else proc t) \<rparr>
                   else t);
             t2 = (if receiveDone_closed t1 then (emit Panic t1) \<lparr> panicked := True \<rparr>
                   else (emit CloseReceiveDone t1) \<lparr> receiveDone_closed := True \<rparr>)
         in (emit CloseMsgChan t2) \<lparr> decoders := decoders t - 1 \<rparr>))"

text \<open>What the other goroutines and the subprocess can do while a call is blocked.\<close>

datatype event = DecoderExit exit_mode | FeederExit | ProcessExit

fun apply_event :: "event \<Rightarrow> 'srv transport \<Rightarrow> 'srv transport" where
  "apply_event (DecoderExit m) t = decoder_exit m t"
| "apply_event FeederExit t = feeder_exit t"
| "apply_event ProcessExit t = (if proc t = Running then t \<lparr> proc := Exited \<rparr> else t)"

fun run_events :: "event list \<Rightarrow> 'srv transport \<Rightarrow> 'srv transport" where
  "run_events [] t = t"
| "run_events (e # es) t = run_events es (apply_event e t)"

subsection \<open>Close\<close>

text \<open>
  What a call of \<^verbatim>\<open>Close\<close> meets: the events of the other goroutines during the grace
  period of five seconds (\<open>during_grace\<close>), and the error of \<^verbatim>\<open>Process.Kill()\<close>
  (\<open>None\<close>: the kill succeeded). The \<^verbatim>\<open>select\<close> takes its first branch when
  \<^verbatim>\<open>receiveDone\<close> is closed before the timer fires, the second otherwise.
\<close>

record close_env =
  during_grace :: "event list"
  kill_result :: "error option"

text \<open>The part of \<^verbatim>\<open>Close\<close> before the \<^verbatim>\<open>select\<close>.\<close>

definition close_input :: "'srv transport \<Rightarrow> 'srv transport" where
  "close_input t =
     (let t1 = t \<lparr> connected := False \<rparr>
      in if \<not> stdinClosed t1 \<and> stdin_set t1
         then (emit CloseStdin t1) \<lparr> stdinClosed := True \<rparr> else t1)"

definition Close :: "close_env \<Rightarrow> 'srv transport \<Rightarrow> 'srv transport \<times> error option" where
  "Close cenv t =
    (if \<not> connected t then (t, None)
     else
      (let t3 = run_events (during_grace cenv) (close_input t)
       in if receiveDone_closed t3 then (cleanup t3, None)
          else
           (let t4 = emit GraceTimeout t3
            in case cmd t4 of
              None \<Rightarrow> (cleanup t4, None)
            | Some c \<Rightarrow>
               (case cmd_Process c of
                  None \<Rightarrow> (cleanup t4, None)
                | Some pid \<Rightarrow>
                   (case kill_result cenv of
                      Some err \<Rightarrow> (emit KillProcess t4, Some err)
                    | None \<Rightarrow>
                        (cleanup ((emit KillProcess t4)
                           \<lparr> proc := (if proc t4 = Running then Killed else proc t4) \<rparr>),
                         None))))))"

text \<open>The number of times an effect has happened.\<close>

definition count_effect :: "effect \<Rightarrow> 'srv transport \<Rightarrow> nat" where
  "count_effect e t = count_list (effects t) e"

text \<open>
  A launch on the machine \<open>e\<close> in which the temporary file and both pipes are made and
  the fork succeeds with process id 4242.
\<close>

definition example_launch :: "os_env \<Rightarrow> unit launch_env" where
  "example_launch e =
     \<lparr> os = e, marshal_mcp = (\<lambda>servers. Inr ''{}''),
       createTemp = Inr ''/tmp/claude_stderr_1.log'',
       stdinPipe = None, stdoutPipe = None, start = Inr 4242, environ = [] \<rparr>"

text \<open>A machine on which the CLI is installed at \<^verbatim>\<open>/usr/bin/claude\<close>.\<close>

definition claude_os :: os_env where
  "claude_os = example_os [''/usr/bin/claude''] [(''claude'', ''/usr/bin/claude'')]"

text \<open>
  Two transports after a successful \<^verbatim>\<open>Connect\<close> on that machine: a one-shot transport
  with the prompt \<^verbatim>\<open>ping\<close>, and a streaming transport with a prompt channel that
  closes the input after the prompts.
\<close>

definition connected_oneshot :: "unit transport" where
  "connected_oneshot =
     fst (Connect (example_launch claude_os) (NewOneShotTransport example_options ''ping''))"

definition connected_streaming :: "unit transport" where
  "connected_streaming =
     fst (Connect (example_launch claude_os) (NewStreamingTransport example_options True True))"

text \<open>
  A configuration whose working directory does not exist, and the same with an override
  path that does not exist either (the two cases of \<^verbatim>\<open>TestSubprocessFailToStart\<close>,
  together).
\<close>

definition missing_dir_options :: "unit Options" where
  "missing_dir_options = example_options \<lparr> WorkingDirectory := ''/does/not/exist/dir'' \<rparr>"

definition missing_both_options :: "unit Options" where
  "missing_both_options = missing_dir_options \<lparr> CLIPath := ''/does/not/exist/claude'' \<rparr>"

text \<open>
  Three ways a \<^verbatim>\<open>Close\<close> can go: the decoder goroutine and the feeder finish within
  the grace period; nothing happens and the kill succeeds; the process has exited, nothing
  else happens, and \<^verbatim>\<open>Process.Kill()\<close> returns an error.
\<close>

definition graceful_close :: close_env where
  "graceful_close = \<lparr> during_grace = [DecoderExit StreamEnded, FeederExit], kill_result = None \<rparr>"

definition forced_close :: close_env where
  "forced_close = \<lparr> during_grace = [], kill_result = None \<rparr>"

definition failed_kill_close :: close_env where
  "failed_kill_close =
     \<lparr> during_grace = [ProcessExit],
       kill_result = Some (OSError ''TerminateProcess: Access is denied.'') \<rparr>"

subsection \<open>Library functions used by the output decoder\<close>

definition maxBufferSize :: nat where
  "maxBufferSize = 1024 * 1024"

abbreviation CR :: char where "CR \<equiv> CHR 0x0D"

text \<open>
  \<^verbatim>\<open>strings.TrimSpace\<close>, modelled from its documentation: all leading and trailing white
  space, as defined by Unicode, is removed. Go strings are UTF-8; the white space runes
  are U+0009 to U+000D, U+0020, U+0085, U+00A0, U+1680, U+2000 to U+200A, U+2028, U+2029,
  U+202F, U+205F and U+3000, and a rune is at the start (at the end) of a string exactly
  when its encoding is a prefix (a suffix) of the bytes.
\<close>

definition space_runes :: "string list" where
  "space_runes =
    [ [CHR 0x09], [CHR 0x0A], [CHR 0x0B], [CHR 0x0C], [CHR 0x0D], [CHR 0x20],
      [CHR 0xC2, CHR 0x85], [CHR 0xC2, CHR 0xA0], [CHR 0xE1, CHR 0x9A, CHR 0x80],
      [CHR 0xE2, CHR 0x80, CHR 0x80], [CHR 0xE2, CHR 0x80, CHR 0x81],
      [CHR 0xE2, CHR 0x80, CHR 0x82], [CHR 0xE2, CHR 0x80, CHR 0x83],
      [CHR 0xE2, CHR 0x80, CHR 0x84], [CHR 0xE2, CHR 0x80, CHR 0x85],
      [CHR 0xE2, CHR 0x80, CHR 0x86], [CHR 0xE2, CHR 0x80, CHR 0x87],
      [CHR 0xE2, CHR 0x80, CHR 0x88], [CHR 0xE2, CHR 0x80, CHR 0x89],
      [CHR 0xE2, CHR 0x80, CHR 0x8A], [CHR 0xE2, CHR 0x80, CHR 0xA8],
      [CHR 0xE2, CHR 0x80, CHR 0xA9], [CHR 0xE2, CHR 0x80, CHR 0xAF],
      [CHR 0xE2, CHR 0x81, CHR 0x9F], [CHR 0xE3, CHR 0x80, CHR 0x80] ]"

text \<open>
  \<open>strip_runes rs k s\<close> skips \<open>k\<close> bytes and then removes from the front of \<open>s\<close>
  every byte sequence of \<open>rs\<close>, as long as one is a prefix of what is left.
\<close>

fun strip_runes :: "string list \<Rightarrow> nat \<Rightarrow> string \<Rightarrow> string" where
  "strip_runes rs k [] = []"
| "strip_runes rs (Suc k) (c # cs) = strip_runes rs k cs"
| "strip_runes rs 0 (c # cs) =
     (case find (\<lambda>r. prefix r (c # cs)) rs of
        None \<Rightarrow> c # cs
      | Some r \<Rightarrow> strip_runes rs (length r - 1) cs)"

definition TrimSpace :: "string \<Rightarrow> string" where
  "TrimSpace s = rev (strip_runes (map rev space_runes) 0 (rev (strip_runes space_runes 0 s)))"

text \<open>
  \<^verbatim>\<open>strings.Split(s, sep)\<close> for a separator of one byte: the pieces between the
  separators, one more than there are separators.
\<close>

fun split_from :: "char \<Rightarrow> string \<Rightarrow> string \<Rightarrow> string list" where
  "split_from sep cur [] = [cur]"
| "split_from sep cur (c # cs) =
     (if c = sep then cur # split_from sep [] cs else split_from sep (cur @ [c]) cs)"

definition strings_Split :: "string \<Rightarrow> char \<Rightarrow> string list" where
  "strings_Split s sep = split_from sep [] s"

text \<open>
  \<^verbatim>\<open>bufio.Scanner\<close> with the default split function \<^verbatim>\<open>ScanLines\<close>, modelled from its
  documentation. The lines of the input are the pieces that end in a newline, and the rest
  of the input when it is not empty; each line is returned without its newline and without
  one trailing carriage return. Scanning stops for good at a line too long for the buffer
  (\<^verbatim>\<open>ErrTooLong\<close>): with \<^verbatim>\<open>scanner.Buffer(make([]byte, 0, cap), cap)\<close> the buffer
  holds \<open>cap\<close> bytes, and a line is found only when it fits there together with its
  newline, or, for the last line, without filling the buffer.
\<close>

fun lines_from :: "string \<Rightarrow> string \<Rightarrow> string list" where
  "lines_from cur [] = (if cur = [] then [] else [cur])"
| "lines_from cur (c # cs) =
     (if c = LF then cur # lines_from [] cs else lines_from (cur @ [c]) cs)"

definition dropCR :: "string \<Rightarrow> string" where
  "dropCR s = (if s \<noteq> [] \<and> last s = CR then butlast s else s)"

definition Scanner_tokens :: "nat \<Rightarrow> string \<Rightarrow> string list" where
  "Scanner_tokens cap s = map dropCR (takeWhile (\<lambda>l. length l < cap) (lines_from [] s))"

definition Scanner_too_long :: "nat \<Rightarrow> string \<Rightarrow> bool" where
  "Scanner_too_long cap s = (\<not> list_all (\<lambda>l. length l < cap) (lines_from [] s))"

subsection \<open>Messages\<close>

text \<open>
  A message is a \<^verbatim>\<open>map[string]any\<close> filled by \<^verbatim>\<open>json.Unmarshal\<close>: the list of its
  entries, each key once. Numbers are kept as their text.
\<close>

datatype json =
    JNull | JBool bool | JNumber string | JString string
  | JArray "json list" | JObject "(string \<times> json) list"

type_synonym message = "(string \<times> json) list"

subsection \<open>The output decoder\<close>

text \<open>
  The state of the goroutine of \<^verbatim>\<open>Receive\<close>: the pending-decode buffer, the messages
  sent on the channel so far, and whether the goroutine has returned from inside the loop.
\<close>

record decoder =
  jsonBuffer :: string
  sent :: "message list"
  returned :: bool

text \<open>
  The body of the inner loop, for one piece \<open>jsonLine\<close>. \<^verbatim>\<open>json.Unmarshal\<close> into a
  fresh map is the parameter \<open>unmarshal\<close> (\<open>None\<close>: it returns an error). The
  \<^verbatim>\<open>select\<close> that sends the message is decided by \<open>ctx\<close>: \<open>ctx k\<close> says that, when
  \<open>k\<close> messages have been sent, the branch \<^verbatim>\<open>ctx.Done()\<close> is the one taken.
\<close>

definition decode_jsonLine ::
  "(string \<Rightarrow> message option) \<Rightarrow> (nat \<Rightarrow> bool) \<Rightarrow> decoder \<Rightarrow> string \<Rightarrow> decoder" where
  "decode_jsonLine unmarshal ctx d jsonLine0 =
    (let jsonLine = TrimSpace jsonLine0 in
     if jsonLine = [] then d
     else
      (let buf = jsonBuffer d @ jsonLine in
       if length buf > maxBufferSize then d \<lparr> jsonBuffer := [] \<rparr>
       else case unmarshal buf of
         None \<Rightarrow> d \<lparr> jsonBuffer := buf \<rparr>
       | Some data \<Rightarrow>
          (if map_of data ''type'' = Some (JString ''control_response'')
           then d \<lparr> jsonBuffer := [] \<rparr>
           else if ctx (length (sent d)) then d \<lparr> jsonBuffer := [], returned := True \<rparr>
           else d \<lparr> jsonBuffer := [], sent := sent d @ [data] \<rparr>)))"

text \<open>The inner loop \<^verbatim>\<open>for _, jsonLine := range lines\<close>; a \<^verbatim>\<open>return\<close> ends it.\<close>

fun decode_pieces ::
  "(string \<Rightarrow> message option) \<Rightarrow> (nat \<Rightarrow> bool) \<Rightarrow> decoder \<Rightarrow> string list \<Rightarrow> decoder" where
  "decode_pieces unmarshal ctx d [] = d"
| "decode_pieces unmarshal ctx d (p # ps) =
     (if returned d then d
      else decode_pieces unmarshal ctx (decode_jsonLine unmarshal ctx d p) ps)"

text \<open>The body of the outer loop, for one line returned by the scanner.\<close>

definition decode_line ::
  "(string \<Rightarrow> message option) \<Rightarrow> (nat \<Rightarrow> bool) \<Rightarrow> decoder \<Rightarrow> string \<Rightarrow> decoder" where
  "decode_line unmarshal ctx d line =
     (if line = [] then d else decode_pieces unmarshal ctx d (strings_Split line LF))"

text \<open>The outer loop \<^verbatim>\<open>for scanner.Scan()\<close>.\<close>

fun decode_lines ::
  "(string \<Rightarrow> message option) \<Rightarrow> (nat \<Rightarrow> bool) \<Rightarrow> decoder \<Rightarrow> string list \<Rightarrow> decoder" where
  "decode_lines unmarshal ctx d [] = d"
| "decode_lines unmarshal ctx d (l # ls) =
     (if returned d then d
      else decode_lines unmarshal ctx (decode_line unmarshal ctx d l) ls)"

text \<open>
  The goroutine of \<^verbatim>\<open>Receive\<close> on the bytes \<open>stream\<close> that the subprocess writes to
  its standard output, up to the end of the scanner loop.
\<close>

definition Receive_loop ::
  "(string \<Rightarrow> message option) \<Rightarrow> (nat \<Rightarrow> bool) \<Rightarrow> string \<Rightarrow> decoder" where
  "Receive_loop unmarshal ctx stream =
     decode_lines unmarshal ctx \<lparr> jsonBuffer = [], sent = [], returned = False \<rparr>
       (Scanner_tokens maxBufferSize stream)"

text \<open>The way the goroutine ends, for \<open>decoder_exit\<close>.\<close>

definition Receive_exit_mode :: "decoder \<Rightarrow> exit_mode" where
  "Receive_exit_mode d = (if returned d then CtxCancelled else StreamEnded)"

text \<open>A context that is never cancelled.\<close>

definition background :: "nat \<Rightarrow> bool" where
  "background k = False"

subsection \<open>A model of json.Unmarshal, for evaluation\<close>

text \<open>
  The decoder above takes \<^verbatim>\<open>json.Unmarshal\<close> as a parameter, and the general
  statements below hold for every such function. For the evaluation of the decoder on
  concrete streams, \<open>json_Unmarshal\<close> models it from the documentation of
  \<^verbatim>\<open>encoding/json\<close> on JSON texts of ASCII characters whose strings contain no
  \<^verbatim>\<open>\u\<close> escape: the text must be one JSON value with nothing but white space around
  it; an object fills the map, a later entry replacing an earlier one with the same key;
  \<^verbatim>\<open>null\<close> leaves the map empty; any other value is an error. No evaluation below
  applies it outside these texts.
\<close>

datatype token =
    TLBrace | TRBrace | TLBrack | TRBrack | TColon | TComma
  | TStr string | TNum string | TTrue | TFalse | TNull

datatype lex = LexIdle | LexStr string bool | LexWord string

definition byte :: "char \<Rightarrow> nat" where
  "byte c = of_char c"

definition is_digit :: "char \<Rightarrow> bool" where
  "is_digit c = (48 \<le> byte c \<and> byte c \<le> 57)"

definition is_word_char :: "char \<Rightarrow> bool" where
  "is_word_char c =
     (is_digit c \<or> (97 \<le> byte c \<and> byte c \<le> 122) \<or> (65 \<le> byte c \<and> byte c \<le> 90)
      \<or> c = CHR ''-'' \<or> c = CHR ''+'' \<or> c = CHR ''.'')"

text \<open>The grammar of a JSON number: sign, integer part, fraction, exponent.\<close>

fun all_digits :: "string \<Rightarrow> bool" where
  "all_digits [] = True"
| "all_digits (c # cs) = (is_digit c \<and> all_digits cs)"

definition is_exponent :: "string \<Rightarrow> bool" where
  "is_exponent s =
     (case s of
        [] \<Rightarrow> True
      | e # r \<Rightarrow> (e = CHR ''e'' \<or> e = CHR ''E'') \<and>
          (case r of
             [] \<Rightarrow> False
           | g # ds \<Rightarrow> if g = CHR ''+'' \<or> g = CHR ''-'' then ds \<noteq> [] \<and> all_digits ds
                       else all_digits (g # ds)))"

definition is_fraction :: "string \<Rightarrow> bool" where
  "is_fraction s =
     (case s of
        [] \<Rightarrow> True
      | p # r \<Rightarrow>
          if p = CHR ''.''
          then takeWhile is_digit r \<noteq> [] \<and> is_exponent (dropWhile is_digit r)
          else is_exponent (p # r))"

definition is_number :: "string \<Rightarrow> bool" where
  "is_number s =
     (let u = (case s of [] \<Rightarrow> [] | c # cs \<Rightarrow> if c = CHR ''-'' then cs else c # cs)
      in case u of
           [] \<Rightarrow> False
         | d # r \<Rightarrow>
             if d = CHR ''0'' then is_fraction r
             else is_digit d \<and> is_fraction (dropWhile is_digit r))"

definition word_token :: "string \<Rightarrow> token option" where
  "word_token w =
     (if w = ''true'' then Some TTrue
      else if w = ''false'' then Some TFalse
      else if w = ''null'' then Some TNull
      else if is_number w then Some (TNum w)
      else None)"

text \<open>A byte met outside strings and words: the token it makes and the state after it.\<close>

definition idle_char :: "char \<Rightarrow> (token option \<times> lex) option" where
  "idle_char c =
     (if c = CHR '' '' \<or> c = CHR 0x09 \<or> c = LF \<or> c = CR then Some (None, LexIdle)
      else if c = CHR ''{'' then Some (Some TLBrace, LexIdle)
      else if c = CHR ''}'' then Some (Some TRBrace, LexIdle)
      else if c = CHR ''['' then Some (Some TLBrack, LexIdle)
      else if c = CHR '']'' then Some (Some TRBrack, LexIdle)
      else if c = CHR '':'' then Some (Some TColon, LexIdle)
      else if c = CHR '','' then Some (Some TComma, LexIdle)
      else if c = DQ then Some (None, LexStr [] False)
      else if is_word_char c then Some (None, LexWord [c])
      else None)"

definition unescape :: "char \<Rightarrow> char option" where
  "unescape c =
     (if c = DQ \<or> c = CHR 0x5C \<or> c = CHR ''/'' then Some c
      else if c = CHR ''b'' then Some (CHR 0x08)
      else if c = CHR ''f'' then Some (CHR 0x0C)
      else if c = CHR ''n'' then Some LF
      else if c = CHR ''r'' then Some CR
      else if c = CHR ''t'' then Some (CHR 0x09)
      else None)"

definition cons_token :: "token option \<Rightarrow> token list option \<Rightarrow> token list option" where
  "cons_token t r = (case r of None \<Rightarrow> None
                     | Some ts \<Rightarrow> (case t of None \<Rightarrow> Some ts | Some x \<Rightarrow> Some (x # ts)))"

fun tokenize :: "lex \<Rightarrow> string \<Rightarrow> token list option" where
  "tokenize LexIdle [] = Some []"
| "tokenize (LexStr acc esc) [] = None"
| "tokenize (LexWord w) [] = cons_token (word_token w) (if word_token w = None then None else Some [])"
| "tokenize LexIdle (c # cs) =
     (case idle_char c of
        None \<Rightarrow> None
      | Some (t, st) \<Rightarrow> cons_token t (tokenize st cs))"
| "tokenize (LexStr acc esc) (c # cs) =
     (if esc then
        (case unescape c of
           None \<Rightarrow> None
         | Some x \<Rightarrow> tokenize (LexStr (acc @ [x]) False) cs)
      else if c = CHR 0x5C then tokenize (LexStr acc True) cs
      else if c = DQ then cons_token (Some (TStr acc)) (tokenize LexIdle cs)
      else if byte c < 32 then None
      else tokenize (LexStr (acc @ [c]) False) cs)"
| "tokenize (LexWord w) (c # cs) =
     (if is_word_char c then tokenize (LexWord (w @ [c])) cs
      else if word_token w = None then None
      else
        (case idle_char c of
           None \<Rightarrow> None
         | Some (t, st) \<Rightarrow> cons_token (word_token w) (cons_token t (tokenize st cs))))"

text \<open>An entry stored in a map: it replaces the entry with the same key.\<close>

fun store :: "string \<Rightarrow> json \<Rightarrow> (string \<times> json) list \<Rightarrow> (string \<times> json) list" where
  "store k v [] = [(k, v)]"
| "store k v ((k', v') # es) = (if k = k' then (k, v) # es else (k', v') # store k v es)"

text \<open>
  The parser, by recursive descent on the tokens. The first argument bounds the number of
  calls; every call but the first follows a token of its own, so one more than the number
  of tokens is enough.
\<close>

fun parse_value :: "nat \<Rightarrow> token list \<Rightarrow> (json \<times> token list) option"
  and parse_elements :: "nat \<Rightarrow> json list \<Rightarrow> token list \<Rightarrow> (json \<times> token list) option"
  and parse_members ::
    "nat \<Rightarrow> (string \<times> json) list \<Rightarrow> token list \<Rightarrow> (json \<times> token list) option" where
  "parse_value 0 ts = None"
| "parse_value (Suc n) ts =
     (case ts of
        TStr s # r \<Rightarrow> Some (JString s, r)
      | TNum s # r \<Rightarrow> Some (JNumber s, r)
      | TTrue # r \<Rightarrow> Some (JBool True, r)
      | TFalse # r \<Rightarrow> Some (JBool False, r)
      | TNull # r \<Rightarrow> Some (JNull, r)
      | TLBrack # r \<Rightarrow>
          (case r of TRBrack # r' \<Rightarrow> Some (JArray [], r') | _ \<Rightarrow> parse_elements n [] r)
      | TLBrace # r \<Rightarrow>
          (case r of TRBrace # r' \<Rightarrow> Some (JObject [], r') | _ \<Rightarrow> parse_members n [] r)
      | _ \<Rightarrow> None)"
| "parse_elements 0 acc ts = None"
| "parse_elements (Suc n) acc ts =
     (case parse_value n ts of
        Some (v, TComma # r) \<Rightarrow> parse_elements n (acc @ [v]) r
      | Some (v, TRBrack # r) \<Rightarrow> Some (JArray (acc @ [v]), r)
      | _ \<Rightarrow> None)"
| "parse_members 0 acc ts = None"
| "parse_members (Suc n) acc ts =
     (case ts of
        TStr k # TColon # r \<Rightarrow>
          (case parse_value n r of
             Some (v, TComma # r') \<Rightarrow> parse_members n (store k v acc) r'
           | Some (v, TRBrace # r') \<Rightarrow> Some (JObject (store k v acc), r')
           | _ \<Rightarrow> None)
      | _ \<Rightarrow> None)"

definition json_Unmarshal :: "string \<Rightarrow> message option" where
  "json_Unmarshal s =
     (case tokenize LexIdle s of
        None \<Rightarrow> None
      | Some ts \<Rightarrow>
         (case parse_value (Suc (length ts)) ts of
            Some (JObject es, []) \<Rightarrow> Some es
          | Some (JNull, []) \<Rightarrow> Some []
          | _ \<Rightarrow> None))"

subsection \<open>Concrete streams\<close>

definition quoted :: "string \<Rightarrow> string" where
  "quoted s = [DQ] @ s @ [DQ]"

text \<open>
  The frames \<^verbatim>\<open>{"type":"assistant"}\<close>, \<^verbatim>\<open>{"type":"control_response"}\<close> and
  \<^verbatim>\<open>{"type":"result","session_id":"s1","duration_ms":120}\<close>.
\<close>

definition assistant_frame :: string where
  "assistant_frame = ''{'' @ quoted ''type'' @ '':'' @ quoted ''assistant'' @ ''}''"

definition control_frame :: string where
  "control_frame = ''{'' @ quoted ''type'' @ '':'' @ quoted ''control_response'' @ ''}''"

definition result_frame :: string where
  "result_frame =
     ''{'' @ quoted ''type'' @ '':'' @ quoted ''result'' @ '','' @
     quoted ''session_id'' @ '':'' @ quoted ''s1'' @ '','' @
     quoted ''duration_ms'' @ '':120}''"

text \<open>
  The object \<^verbatim>\<open>{"a":"xx...x"}\<close> whose string has \<open>maxBufferSize\<close> bytes, and the same
  text cut off before the closing quote.
\<close>

definition big_object :: string where
  "big_object = ''{'' @ quoted ''a'' @ '':'' @ [DQ] @ replicate maxBufferSize (CHR ''x'') @ [DQ] @ ''}''"

definition big_fragment :: string where
  "big_fragment = ''{'' @ quoted ''a'' @ '':'' @ [DQ] @ replicate maxBufferSize (CHR ''x'')"

text \<open>
  The object \<^verbatim>\<open>{"a":"x y"}\<close>, cut after the colon (\<open>split_head\<close>, \<open>split_tail\<close>) and
  cut inside the string, before the blank (\<open>cut_head\<close>, \<open>cut_tail\<close>).
\<close>

definition split_head :: string where
  "split_head = ''{'' @ quoted ''a'' @ '':''"

definition split_tail :: string where
  "split_tail = quoted ''x y'' @ ''}''"

definition cut_head :: string where
  "cut_head = ''{'' @ quoted ''a'' @ '':'' @ [DQ] @ ''x''"

definition cut_tail :: string where
  "cut_tail = '' y'' @ [DQ] @ ''}''"

section \<open>Properties\<close>

lemma stat_locations_hit:
  "\<forall>l \<in> set pre. \<not> stat_ok env l \<Longrightarrow> stat_ok env loc \<Longrightarrow>
   stat_locations env (pre @ loc # post) = (map Stat pre @ [Stat loc], Some loc)"
  by (induction pre) simp_all

lemma stat_locations_miss:
  "\<forall>l \<in> set locs. \<not> stat_ok env l \<Longrightarrow> stat_locations env locs = (map Stat locs, None)"
  by (induction locs) simp_all

subsection \<open>Resolution of the CLI executable\<close>

text \<open>
  Claim C7. For every configuration, \<^verbatim>\<open>findCLI\<close> resolves the executable in this order
  and returns the first hit:
  (a) when an override path is set, only that path is examined: it is returned when it
  exists, and otherwise the error names the path and no later step is tried;
  (b) otherwise the search path is consulted;
  (c) otherwise the fixed list of install locations is examined in order, up to the first
  one that exists;
  (d) when none exists, the error depends on whether \<^verbatim>\<open>node\<close> is on the search path
  (missing runtime or missing package).
  The first component of \<open>findCLI_run\<close> lists the calls made, in order.
\<close>

theorem findCLI_resolution_order:
  "(CLIPath opts \<noteq> [] \<and> stat_ok env (CLIPath opts) \<longrightarrow>
      findCLI_run env opts = ([Stat (CLIPath opts)], Inr (CLIPath opts))) \<and>
   (CLIPath opts \<noteq> [] \<and> \<not> stat_ok env (CLIPath opts) \<longrightarrow>
      findCLI_run env opts =
        ([Stat (CLIPath opts)],
         Inl (Plain (''claude CLI not found at specified path: '' @ CLIPath opts)))) \<and>
   (CLIPath opts = [] \<and> lookPath env ''claude'' = Some p \<longrightarrow>
      findCLI_run env opts = ([LookPath ''claude''], Inr p)) \<and>
   (CLIPath opts = [] \<and> lookPath env ''claude'' = None \<and>
    locations env = pre @ loc # post \<and> (\<forall>l \<in> set pre. \<not> stat_ok env l) \<and> stat_ok env loc \<longrightarrow>
      findCLI_run env opts = (LookPath ''claude'' # map Stat pre @ [Stat loc], Inr loc)) \<and>
   (CLIPath opts = [] \<and> lookPath env ''claude'' = None \<and>
    (\<forall>l \<in> set (locations env). \<not> stat_ok env l) \<longrightarrow>
      findCLI_run env opts =
        (LookPath ''claude'' # map Stat (locations env) @ [LookPath ''node''],
         Inl (Plain (if lookPath env ''node'' = None then node_missing_message
                     else package_missing_message))))"
  by (simp add: findCLI_run_def stat_locations_hit stat_locations_miss)

theorem findCLI_resolution_order_witness:
  "findCLI_run (example_os [''/opt/claude''] []) (example_options\<lparr>CLIPath := ''/opt/claude''\<rparr>)
     = ([Stat ''/opt/claude''], Inr ''/opt/claude'') \<and>
   findCLI_run (example_os [] [(''claude'', ''/usr/bin/claude'')])
       (example_options\<lparr>CLIPath := ''/opt/claude''\<rparr>)
     = ([Stat ''/opt/claude''],
        Inl (Plain ''claude CLI not found at specified path: /opt/claude'')) \<and>
   findCLI_run (example_os [''/usr/local/bin/claude''] [(''claude'', ''/usr/bin/claude'')])
       example_options
     = ([LookPath ''claude''], Inr ''/usr/bin/claude'') \<and>
   findCLI_run (example_os [''/home/u/.local/bin/claude'', ''/home/u/.yarn/bin/claude''] [])
       example_options
     = ([LookPath ''claude'', Stat ''/home/u/.npm-global/bin/claude'',
         Stat ''/usr/local/bin/claude'', Stat ''/home/u/.local/bin/claude''],
        Inr ''/home/u/.local/bin/claude'') \<and>
   findCLI_run (example_os [] [(''node'', ''/usr/bin/node'')]) example_options
     = (LookPath ''claude'' # map Stat (locations (example_os [] [(''node'', ''/usr/bin/node'')]))
          @ [LookPath ''node''],
        Inl (Plain package_missing_message))"
proof -
  let ?o1 = "example_options\<lparr>CLIPath := ''/opt/claude''\<rparr>"
  let ?e4 = "example_os [''/home/u/.local/bin/claude'', ''/home/u/.yarn/bin/claude''] []"
  note a = findCLI_resolution_order [of ?o1 "example_os [''/opt/claude''] []"]
  note b = findCLI_resolution_order [of ?o1 "example_os [] [(''claude'', ''/usr/bin/claude'')]"]
  note c = findCLI_resolution_order
    [of example_options "example_os [''/usr/local/bin/claude''] [(''claude'', ''/usr/bin/claude'')]"
        "''/usr/bin/claude''"]
  note d = findCLI_resolution_order
    [of example_options ?e4 _
        "[''/home/u/.npm-global/bin/claude'', ''/usr/local/bin/claude'']"
        "''/home/u/.local/bin/claude''"
        "[''/home/u/node_modules/.bin/claude'', ''/home/u/.yarn/bin/claude'']"]
  note e = findCLI_resolution_order
    [of example_options "example_os [] [(''node'', ''/usr/bin/node'')]"]
  show ?thesis
    using a b c d e
    by (simp add: example_os_def example_options_def locations_def join_simple_def)
qed

subsection \<open>The life cycle: auxiliary facts\<close>

lemma emit_fields [simp]:
  "connected (emit e t) = connected t" "cmd (emit e t) = cmd t"
  "decoders (emit e t) = decoders t" "receiveDone_closed (emit e t) = receiveDone_closed t"
  "stdin_set (emit e t) = stdin_set t" "stdout_set (emit e t) = stdout_set t"
  "stderrFile (emit e t) = stderrFile t" "stdinClosed (emit e t) = stdinClosed t"
  "temp_files (emit e t) = temp_files t" "proc (emit e t) = proc t"
  "panicked (emit e t) = panicked t" "feeder_running (emit e t) = feeder_running t"
  "options (emit e t) = options t"
  "effects (emit e t) = effects t @ [e]"
  by (simp_all add: emit_def)

lemma count_effect_emit [simp]: "count_effect e (emit e' t) = (if e' = e then Suc (count_effect e t) else count_effect e t)"
  by (simp add: count_effect_def)

lemma count_effect_update [simp]:
  "count_effect e (t\<lparr>connected := a\<rparr>) = count_effect e t"
  "count_effect e (t\<lparr>stdinClosed := b\<rparr>) = count_effect e t"
  "count_effect e (t\<lparr>proc := c\<rparr>) = count_effect e t"
  "count_effect e (t\<lparr>temp_files := d\<rparr>) = count_effect e t"
  "count_effect e (t\<lparr>receiveDone_closed := f\<rparr>) = count_effect e t"
  "count_effect e (t\<lparr>decoders := g\<rparr>) = count_effect e t"
  "count_effect e (t\<lparr>panicked := h\<rparr>) = count_effect e t"
  "count_effect e (t\<lparr>feeder_running := i\<rparr>) = count_effect e t"
  by (simp_all add: count_effect_def)

lemma cleanup_fields [simp]:
  "connected (cleanup t) = connected t" "cmd (cleanup t) = cmd t"
  "decoders (cleanup t) = decoders t" "receiveDone_closed (cleanup t) = receiveDone_closed t"
  "proc (cleanup t) = proc t" "panicked (cleanup t) = panicked t"
  "stdinClosed (cleanup t) = stdinClosed t"
  by (simp_all add: cleanup_def Let_def split: option.splits)

lemma cleanup_count:
  "e \<notin> {CloseStdin, CloseStdout, CloseStderrFile} \<Longrightarrow> \<forall>n. e \<noteq> RemoveFile n \<Longrightarrow>
   count_effect e (cleanup t) = count_effect e t"
  by (auto simp: cleanup_def Let_def split: option.splits)

lemma apply_event_idle:
  "decoders t = 0 \<Longrightarrow>
   decoders (apply_event ev t) = 0 \<and>
   receiveDone_closed (apply_event ev t) = receiveDone_closed t"
  by (cases ev) (auto simp: decoder_exit_def feeder_exit_def)

lemma apply_event_frame:
  "connected (apply_event ev t) = connected t \<and> cmd (apply_event ev t) = cmd t"
  by (cases ev) (auto simp: decoder_exit_def feeder_exit_def Let_def)

lemma run_events_idle:
  "decoders t = 0 \<Longrightarrow>
   decoders (run_events evs t) = 0 \<and>
   receiveDone_closed (run_events evs t) = receiveDone_closed t"
  by (induction evs arbitrary: t) (simp_all add: apply_event_idle)

lemma run_events_frame:
  "connected (run_events evs t) = connected t \<and> cmd (run_events evs t) = cmd t"
  by (induction evs arbitrary: t) (simp_all add: apply_event_frame)

lemma apply_event_count:
  "e \<in> {GraceTimeout, KillProcess, CloseStdout, CloseStderrFile} \<or> (\<exists>n. e = RemoveFile n) \<Longrightarrow>
   count_effect e (apply_event ev t) = count_effect e t"
  by (cases ev) (auto simp: decoder_exit_def feeder_exit_def Let_def)

lemma run_events_count:
  "e \<in> {GraceTimeout, KillProcess, CloseStdout, CloseStderrFile} \<or> (\<exists>n. e = RemoveFile n) \<Longrightarrow>
   count_effect e (run_events evs t) = count_effect e t"
  by (induction evs arbitrary: t) (simp_all add: apply_event_count)

lemma Connect_success:
  assumes "Connect lenv t = (t', None)" and "\<not> connected t"
  shows "connected t' \<and> (\<exists>c pid. cmd t' = Some c \<and> cmd_Process c = Some pid) \<and>
         decoders t' = decoders t \<and> receiveDone_closed t' = receiveDone_closed t \<and>
         stdin_set t' \<and> stdout_set t' \<and> stderrFile t' \<noteq> None"
  using assms
  by (auto simp: Connect_def Let_def split: sum.splits option.splits if_splits)

text \<open>
  \<^verbatim>\<open>buildCommand\<close> never returns an empty argument vector, so \<^verbatim>\<open>cmdArgs[0]\<close> in
  \<^verbatim>\<open>Connect\<close> is defined.
\<close>

lemma buildCommand_nonempty:
  assumes "buildCommand lenv t = Inr args"
  shows "args \<noteq> []"
proof (cases "findCLI (os lenv) (options t)")
  case (Inl err)
  with assms show ?thesis by (simp add: buildCommand_def)
next
  case (Inr cliPath)
  show ?thesis
  proof (cases "MCPServers (options t) = []")
    case True
    with assms Inr show ?thesis by (auto simp: buildCommand_def Let_def)
  next
    case False
    with assms Inr show ?thesis
      by (cases "marshal_mcp lenv (MCPServers (options t))") (auto simp: buildCommand_def Let_def)
  qed
qed

text \<open>
  The feeder returns once the context is done, whatever it has seen before, and when it
  has returned the input pipe is closed and marked closed.
\<close>

lemma await_session_end_cancel: "CtxDone \<in> set sel \<Longrightarrow> await_session_end sel"
  by (induction sel rule: await_session_end.induct) auto

lemma streamToStdin_returns_on_cancel:
  "CtxDone \<in> set sel \<Longrightarrow> snd (streamToStdin closeAfter sel)"
  by (induction closeAfter sel rule: streamToStdin.induct)
     (auto simp: await_session_end_cancel split: prod.splits)

lemma feeder_exit_closes_stdin:
  "feeder_running t \<Longrightarrow>
   stdinClosed (feeder_exit t) \<and>
   count_effect CloseStdin (feeder_exit t)
     = (if stdinClosed t then count_effect CloseStdin t else Suc (count_effect CloseStdin t))"
  by (simp add: feeder_exit_def)

subsection \<open>Close when Receive was never called\<close>

text \<open>
  Claim C9. After a successful \<^verbatim>\<open>Connect\<close> on a fresh transport, and as long as
  \<^verbatim>\<open>Receive\<close> is not called, whatever the feeder, the subprocess and (absent) decoder
  goroutines do (\<open>evs\<close>, and the events during the grace period of the call),
  \<^verbatim>\<open>receiveDone\<close> stays open: only the goroutine of \<^verbatim>\<open>Receive\<close> closes it. So the
  \<^verbatim>\<open>Close\<close> of the connected transport takes the branch of the grace-period timeout and
  calls \<^verbatim>\<open>Process.Kill()\<close>, also when the process has exited by itself (\<open>ProcessExit\<close>
  among the events), and the channel is still open afterwards. (A further call of
  \<^verbatim>\<open>Close\<close> finds the transport not connected and returns at once, see C6.)
\<close>

theorem close_without_receive_kills:
  assumes "Connect lenv t0 = (t1, None)"
    and "\<not> connected t0" and "decoders t0 = 0" and "\<not> receiveDone_closed t0"
  shows "\<not> receiveDone_closed (run_events evs t1) \<and>
         count_effect GraceTimeout (fst (Close cenv (run_events evs t1)))
           = Suc (count_effect GraceTimeout (run_events evs t1)) \<and>
         count_effect KillProcess (fst (Close cenv (run_events evs t1)))
           = Suc (count_effect KillProcess (run_events evs t1)) \<and>
         \<not> receiveDone_closed (fst (Close cenv (run_events evs t1)))"
proof -
  let ?t2 = "run_events evs t1"
  from Connect_success [OF assms(1,2)] assms(3,4)
  obtain c pid where t1: "connected t1" "cmd t1 = Some c" "cmd_Process c = Some pid"
    "decoders t1 = 0" "\<not> receiveDone_closed t1"
    by auto
  have t2: "connected ?t2" "cmd ?t2 = Some c" "decoders ?t2 = 0" "\<not> receiveDone_closed ?t2"
    using t1 run_events_idle [of t1 evs] run_events_frame [of evs t1] by simp_all
  define u where "u = close_input ?t2"
  have u: "cmd u = Some c" "decoders u = 0" "\<not> receiveDone_closed u"
    "count_effect GraceTimeout u = count_effect GraceTimeout ?t2" "count_effect KillProcess u = count_effect KillProcess ?t2"
    using t2 by (simp_all add: u_def close_input_def Let_def)
  let ?v = "run_events (during_grace cenv) u"
  have v: "cmd ?v = Some c" "\<not> receiveDone_closed ?v"
    using u run_events_idle [of u "during_grace cenv"] run_events_frame [of "during_grace cenv" u]
    by simp_all
  have tv: "count_effect GraceTimeout ?v = count_effect GraceTimeout u \<and> count_effect KillProcess ?v = count_effect KillProcess u"
    by (simp add: run_events_count)
  show ?thesis
    using t2 v tv u t1(3)
    by (cases "kill_result cenv")
       (simp_all add: Close_def Let_def u_def [symmetric] cleanup_count)
qed


subsection \<open>Receive called twice\<close>

text \<open>
  Claim C10. On a connected transport a second call of \<^verbatim>\<open>Receive\<close> succeeds like the
  first and starts a second goroutine; nothing guards the shared channel
  \<^verbatim>\<open>receiveDone\<close>. When both goroutines have returned, in whichever way (\<open>m1\<close>,
  \<open>m2\<close>), the deferred \<^verbatim>\<open>close(t.receiveDone)\<close> of the second one has panicked, the
  channel being closed already; on a fresh transport the first return does not panic.
\<close>

theorem second_receive_panics:
  assumes "connected t"
  shows "snd (Receive t) = None \<and> snd (Receive (fst (Receive t))) = None \<and>
         decoders (fst (Receive (fst (Receive t)))) = decoders t + 2 \<and>
         (\<not> receiveDone_closed t \<and> \<not> panicked t \<longrightarrow>
            \<not> panicked (decoder_exit m1 (fst (Receive (fst (Receive t)))))) \<and>
         panicked (decoder_exit m2 (decoder_exit m1 (fst (Receive (fst (Receive t)))))) \<and>
         Panic \<in> set (effects (decoder_exit m2 (decoder_exit m1 (fst (Receive (fst (Receive t)))))))"
  using assms by (simp add: Receive_def decoder_exit_def Let_def)

text \<open>The premise of C10 holds after a successful \<^verbatim>\<open>Connect\<close>.\<close>

theorem second_receive_panics_witness:
  "connected (fst (Connect (example_launch claude_os) (NewOneShotTransport example_options ''ping''))) \<and>
   panicked (decoder_exit StreamEnded (decoder_exit StreamEnded
     (fst (Receive (fst (Receive
        (fst (Connect (example_launch claude_os) (NewOneShotTransport example_options ''ping'')))))))))"
proof -
  let ?t = "fst (Connect (example_launch claude_os) (NewOneShotTransport example_options ''ping''))"
  have c: "connected ?t"
    by (simp add: Connect_def buildCommand_def findCLI_def findCLI_run_def cmd_Start_def
        emit_def NewOneShotTransport_def NewSubprocessTransport_def example_launch_def
        claude_os_def example_os_def example_options_def)
  from second_receive_panics [OF c, of StreamEnded StreamEnded] c show ?thesis by simp
qed


subsection \<open>Connect with a working directory that does not exist\<close>

lemma cleanup_temp_files:
  "stderrFile t = Some name \<Longrightarrow> name \<notin> set (temp_files (cleanup t))"
  by (simp add: cleanup_def Let_def)

lemma cleanup_temp_files_none:
  "temp_files (cleanup t) = (case stderrFile t of None \<Rightarrow> temp_files t
     | Some name \<Rightarrow> removeAll name (temp_files t))"
  by (simp add: cleanup_def Let_def split: option.splits)

text \<open>
  Claim C8, amended. For every configuration whose working directory is set and does not
  exist, \<^verbatim>\<open>Connect\<close> on a transport that is not connected and has no process returns an
  error, the transport stays unconnected and no subprocess has been started. When the
  launch gets as far as \<^verbatim>\<open>cmd.Start()\<close> (the executable is resolved and the command
  built, the error-sink file and both pipes are made), the error is
  \<^verbatim>\<open>ErrConnectionFailed\<close> with a message that ends in the directory, and the error-sink
  file is removed. An earlier failure is reported instead of the directory (see the
  counterexample).
\<close>

theorem Connect_invalid_working_directory:
  assumes "\<not> connected t" and "proc t = NotStarted"
    and "WorkingDirectory (options t) \<noteq> []"
    and "\<not> stat_ok (os lenv) (WorkingDirectory (options t))"
  shows "snd (Connect lenv t) \<noteq> None \<and>
         proc (fst (Connect lenv t)) = NotStarted \<and> \<not> connected (fst (Connect lenv t)) \<and>
         (\<forall>args name. buildCommand lenv t = Inr args \<and> createTemp lenv = Inr name \<and>
            stdinPipe lenv = None \<and> stdoutPipe lenv = None \<longrightarrow>
            snd (Connect lenv t)
              = Some (Wrapped ErrConnectionFailed
                        (''working directory does not exist: '' @ WorkingDirectory (options t))) \<and>
            map_option error_message (snd (Connect lenv t))
              = Some (''claude-code: connection failed: working directory does not exist: ''
                        @ WorkingDirectory (options t)) \<and>
            name \<notin> set (temp_files (fst (Connect lenv t))))"
  using assms
  by (auto simp: Connect_def Let_def cmd_Start_def cleanup_temp_files
      split: sum.splits option.splits)

text \<open>The premises of C8 hold on a machine with the CLI installed.\<close>

theorem Connect_invalid_working_directory_witness:
  "snd (Connect (example_launch claude_os) (NewOneShotTransport missing_dir_options ''test''))
     = Some (Wrapped ErrConnectionFailed ''working directory does not exist: /does/not/exist/dir'') \<and>
   proc (fst (Connect (example_launch claude_os) (NewOneShotTransport missing_dir_options ''test'')))
     = NotStarted"
proof -
  let ?t = "NewOneShotTransport missing_dir_options ''test''"
  let ?l = "example_launch claude_os"
  have a: "\<not> connected ?t" "proc ?t = NotStarted" "WorkingDirectory (options ?t) \<noteq> []"
    "\<not> stat_ok (os ?l) (WorkingDirectory (options ?t))"
    by (simp_all add: NewOneShotTransport_def NewSubprocessTransport_def missing_dir_options_def
        example_options_def example_launch_def claude_os_def example_os_def)
  have b: "\<exists>args. buildCommand ?l ?t = Inr args" "createTemp ?l = Inr ''/tmp/claude_stderr_1.log''"
    "stdinPipe ?l = None" "stdoutPipe ?l = None"
    by (simp_all add: buildCommand_def findCLI_def findCLI_run_def NewOneShotTransport_def
        NewSubprocessTransport_def missing_dir_options_def
        example_options_def example_launch_def claude_os_def example_os_def)
  have w: "WorkingDirectory (options ?t) = ''/does/not/exist/dir''"
    by (simp add: NewOneShotTransport_def NewSubprocessTransport_def missing_dir_options_def
        example_options_def)
  from Connect_invalid_working_directory [OF a] b w show ?thesis
    by auto
qed

text \<open>
  Claim C8 as stated fails: with an override path that does not exist either,
  \<^verbatim>\<open>buildCommand\<close> fails first and the error names the override path, not the working
  directory.
\<close>

theorem Connect_invalid_working_directory_counterexample:
  "WorkingDirectory missing_both_options
     = ''/does/not/exist/dir'' \<and>
   \<not> stat_ok (example_os [] []) ''/does/not/exist/dir'' \<and>
   snd (Connect (example_launch (example_os [] []))
          (NewOneShotTransport missing_both_options ''test''))
     = Some (Wrapped ErrClaudeNotInstalled
               ''claude CLI not found at specified path: /does/not/exist/claude'') \<and>
   \<not> sublist ''/does/not/exist/dir''
        (error_message (Wrapped ErrClaudeNotInstalled
               ''claude CLI not found at specified path: /does/not/exist/claude''))"
  by (simp add: Connect_def buildCommand_def findCLI_def findCLI_run_def NewOneShotTransport_def
        NewSubprocessTransport_def missing_dir_options_def missing_both_options_def
        example_options_def example_launch_def example_os_def sublist_Cons_right prefix_Cons)

subsection \<open>The result of Close\<close>

lemma run_events_waits:
  "decoders t = decoders u \<Longrightarrow>
   decoders (run_events evs t) = decoders (run_events evs u) \<and>
   count_effect WaitProcess (run_events evs t) + count_effect WaitProcess u
     = count_effect WaitProcess (run_events evs u) + count_effect WaitProcess t"
proof (induction evs arbitrary: t u)
  case Nil
  then show ?case by simp
next
  case (Cons ev evs)
  have d: "decoders (apply_event ev t) = decoders (apply_event ev u)"
    using Cons.prems by (cases ev) (auto simp: decoder_exit_def feeder_exit_def Let_def)
  have w: "count_effect WaitProcess (apply_event ev t) + count_effect WaitProcess u
         = count_effect WaitProcess (apply_event ev u) + count_effect WaitProcess t"
    using Cons.prems by (cases ev) (auto simp: decoder_exit_def feeder_exit_def Let_def)
  from Cons.IH [OF d] w show ?case by simp
qed


lemma close_input_frame:
  "decoders (close_input t) = decoders t"
  "count_effect WaitProcess (close_input t) = count_effect WaitProcess t"
  "count_effect GraceTimeout (close_input t) = count_effect GraceTimeout t"
  "count_effect KillProcess (close_input t) = count_effect KillProcess t"
  "cmd (close_input t) = cmd t" "receiveDone_closed (close_input t) = receiveDone_closed t"
  "\<not> connected (close_input t)"
  by (simp_all add: close_input_def Let_def)

lemma Close_not_connected: "\<not> connected t \<Longrightarrow> Close cenv t = (t, None)"
  by (simp add: Close_def)

lemma Close_disconnects: "\<not> connected (fst (Close cenv t))"
  by (simp add: Close_def Let_def run_events_frame close_input_frame split: option.splits)

lemma Close_error_cases:
  "snd (Close cenv t) = None \<or> snd (Close cenv t) = kill_result cenv"
  by (simp add: Close_def Let_def split: option.splits)

lemma Close_kill_ok: "kill_result cenv = None \<Longrightarrow> snd (Close cenv t) = None"
  by (simp add: Close_def Let_def split: option.splits)

lemma Close_counts:
  assumes "connected t"
  shows "count_effect WaitProcess (fst (Close cenv t))
           = count_effect WaitProcess (run_events (during_grace cenv) t)"
    and "count_effect GraceTimeout (fst (Close cenv t))
           = (if receiveDone_closed (run_events (during_grace cenv) (close_input t))
              then count_effect GraceTimeout t else Suc (count_effect GraceTimeout t))"
    and "receiveDone_closed (run_events (during_grace cenv) (close_input t)) \<Longrightarrow>
           snd (Close cenv t) = None"
proof -
  let ?u = "run_events (during_grace cenv) (close_input t)"
  have wu: "count_effect WaitProcess ?u = count_effect WaitProcess (run_events (during_grace cenv) t)"
    using run_events_waits [of "close_input t" t "during_grace cenv"]
    by (simp add: close_input_frame)
  have gu: "count_effect GraceTimeout ?u = count_effect GraceTimeout t"
    by (simp add: run_events_count close_input_frame)
  show "count_effect WaitProcess (fst (Close cenv t))
           = count_effect WaitProcess (run_events (during_grace cenv) t)"
    using wu assms by (simp add: Close_def Let_def cleanup_count split: option.splits)
  show "count_effect GraceTimeout (fst (Close cenv t))
           = (if receiveDone_closed ?u then count_effect GraceTimeout t
              else Suc (count_effect GraceTimeout t))"
    using gu assms by (simp add: Close_def Let_def cleanup_count split: option.splits)
  show "receiveDone_closed ?u \<Longrightarrow> snd (Close cenv t) = None"
    using assms by (simp add: Close_def Let_def)
qed

lemma Close_signal:
  "connected t \<Longrightarrow> receiveDone_closed (run_events (during_grace cenv) (close_input t)) \<Longrightarrow>
   snd (Close cenv t) = None"
  by (simp add: Close_def Let_def)

lemma Close_timeout:
  assumes "connected t"
    and "\<not> receiveDone_closed (run_events (during_grace cenv) (close_input t))"
    and "cmd t = Some c" and "cmd_Process c = Some pid"
  shows "snd (Close cenv t) = kill_result cenv"
    and "count_effect GraceTimeout (fst (Close cenv t)) = Suc (count_effect GraceTimeout t)"
    and "count_effect KillProcess (fst (Close cenv t)) = Suc (count_effect KillProcess t)"
proof -
  let ?u = "run_events (during_grace cenv) (close_input t)"
  have c: "cmd ?u = Some c"
    using assms(3) run_events_frame [of "during_grace cenv" "close_input t"]
    by (simp add: close_input_frame)
  have g: "count_effect GraceTimeout ?u = count_effect GraceTimeout t"
    "count_effect KillProcess ?u = count_effect KillProcess t"
    by (simp_all add: run_events_count close_input_frame)
  show "snd (Close cenv t) = kill_result cenv"
    using assms c by (simp add: Close_def Let_def split: option.splits)
  show "count_effect GraceTimeout (fst (Close cenv t)) = Suc (count_effect GraceTimeout t)"
    using assms c g by (simp add: Close_def Let_def cleanup_count split: option.splits)
  show "count_effect KillProcess (fst (Close cenv t)) = Suc (count_effect KillProcess t)"
    using assms c g by (simp add: Close_def Let_def cleanup_count split: option.splits)
qed

lemma Close_no_process:
  assumes "cmd t = None \<or> (\<exists>c. cmd t = Some c \<and> cmd_Process c = None)"
  shows "snd (Close cenv t) = None"
proof -
  have "cmd (run_events (during_grace cenv) (close_input t)) = cmd t"
    using run_events_frame [of "during_grace cenv" "close_input t"]
    by (simp add: close_input_frame)
  with assms show ?thesis
    by (auto simp: Close_def Let_def split: option.splits)
qed

text \<open>
  Claim C6, amended. A call of \<^verbatim>\<open>Close\<close> on a transport that is not connected returns
  nil and changes nothing; so does every call that follows a call of \<^verbatim>\<open>Close\<close>. A call
  on a connected transport returns nil when \<^verbatim>\<open>receiveDone\<close> is closed within the grace
  period, when there is no process to kill, and when the kill succeeds. When the grace
  period times out on a transport with a process, \<^verbatim>\<open>Close\<close> calls \<^verbatim>\<open>Process.Kill()\<close>
  once and returns exactly what the kill returns: its error when it fails. \<^verbatim>\<open>Close\<close>
  itself never waits for the process: the calls of \<^verbatim>\<open>cmd.Wait()\<close> after it are those
  of the decoder goroutines that end during the grace period.
\<close>

theorem Close_returns:
  "(\<not> connected t \<longrightarrow> Close cenv t = (t, None)) \<and>
   Close cenv' (fst (Close cenv t)) = (fst (Close cenv t), None) \<and>
   (kill_result cenv = None \<longrightarrow> snd (Close cenv t) = None) \<and>
   (count_effect GraceTimeout (fst (Close cenv t)) = count_effect GraceTimeout t \<longrightarrow>
      snd (Close cenv t) = None) \<and>
   (snd (Close cenv t) = None \<or> snd (Close cenv t) = kill_result cenv) \<and>
   (connected t \<longrightarrow>
      count_effect WaitProcess (fst (Close cenv t))
        = count_effect WaitProcess (run_events (during_grace cenv) t)) \<and>
   (connected t \<and> receiveDone_closed (run_events (during_grace cenv) (close_input t)) \<longrightarrow>
      snd (Close cenv t) = None) \<and>
   (connected t \<and> \<not> receiveDone_closed (run_events (during_grace cenv) (close_input t)) \<and>
    cmd t = Some c \<and> cmd_Process c = Some pid \<longrightarrow>
      snd (Close cenv t) = kill_result cenv \<and>
      count_effect GraceTimeout (fst (Close cenv t)) = Suc (count_effect GraceTimeout t) \<and>
      count_effect KillProcess (fst (Close cenv t)) = Suc (count_effect KillProcess t)) \<and>
   (cmd t = None \<or> (\<exists>c. cmd t = Some c \<and> cmd_Process c = None) \<longrightarrow>
      snd (Close cenv t) = None)"
proof (intro conjI impI)
  show "Close cenv t = (t, None)" if "\<not> connected t"
    using that by (rule Close_not_connected)
  show "Close cenv' (fst (Close cenv t)) = (fst (Close cenv t), None)"
    by (rule Close_not_connected) (rule Close_disconnects)
  show "snd (Close cenv t) = None" if "kill_result cenv = None"
    using that by (rule Close_kill_ok)
  show "snd (Close cenv t) = None"
    if "count_effect GraceTimeout (fst (Close cenv t)) = count_effect GraceTimeout t"
  proof (cases "connected t")
    case True
    from Close_counts(2,3) [OF True, of cenv] that show ?thesis
      by (simp split: if_splits)
  next
    case False
    then show ?thesis by (simp add: Close_not_connected)
  qed
  show "snd (Close cenv t) = None \<or> snd (Close cenv t) = kill_result cenv"
    by (rule Close_error_cases)
  show "count_effect WaitProcess (fst (Close cenv t))
        = count_effect WaitProcess (run_events (during_grace cenv) t)" if "connected t"
    using Close_counts(1) [OF that] .
  show "snd (Close cenv t) = None"
    if "connected t \<and> receiveDone_closed (run_events (during_grace cenv) (close_input t))"
    using that by (simp add: Close_signal)
  show "snd (Close cenv t) = kill_result cenv"
    if "connected t \<and> \<not> receiveDone_closed (run_events (during_grace cenv) (close_input t)) \<and>
        cmd t = Some c \<and> cmd_Process c = Some pid"
    using that Close_timeout(1) [of t cenv c pid] by simp
  show "count_effect GraceTimeout (fst (Close cenv t)) = Suc (count_effect GraceTimeout t)"
    if "connected t \<and> \<not> receiveDone_closed (run_events (during_grace cenv) (close_input t)) \<and>
        cmd t = Some c \<and> cmd_Process c = Some pid"
    using that Close_timeout(2) [of t cenv c pid] by simp
  show "count_effect KillProcess (fst (Close cenv t)) = Suc (count_effect KillProcess t)"
    if "connected t \<and> \<not> receiveDone_closed (run_events (during_grace cenv) (close_input t)) \<and>
        cmd t = Some c \<and> cmd_Process c = Some pid"
    using that Close_timeout(3) [of t cenv c pid] by simp
  show "snd (Close cenv t) = None"
    if "cmd t = None \<or> (\<exists>c. cmd t = Some c \<and> cmd_Process c = None)"
    using that by (rule Close_no_process)
qed


subsection \<open>Concrete runs\<close>

lemma connected_oneshot_value:
  "connected_oneshot =
    \<lparr> options = example_options,
      cmd = Some \<lparr> cmd_Path = ''/usr/bin/claude'',
                   cmd_Args = [''/usr/bin/claude'', ''--output-format'', ''stream-json'',
                               ''--verbose'', ''--print'', ''ping''],
                   cmd_Env = [''CLAUDE_CODE_ENTRYPOINT=sdk-go''], cmd_Dir = [],
                   cmd_Stderr = Some ''/tmp/claude_stderr_1.log'', cmd_Process = Some 4242 \<rparr>,
      stdin_set = True, stdout_set = True, stderrFile = Some ''/tmp/claude_stderr_1.log'',
      connected = True, isStreaming = False, prompt = ''ping'', promptChan_set = False,
      closeStdinAfterPrompt = False, receiveDone_closed = False, stdinClosed = True,
      decoders = 0, feeder_running = False, proc = Running,
      temp_files = [''/tmp/claude_stderr_1.log''], panicked = False, effects = [CloseStdin] \<rparr>"
  by (simp add: connected_oneshot_def Connect_def buildCommand_def findCLI_def findCLI_run_def
      cmd_Start_def emit_def NewOneShotTransport_def NewSubprocessTransport_def
      example_launch_def claude_os_def example_os_def example_options_def)

lemma connected_streaming_value:
  "connected_streaming =
    \<lparr> options = example_options,
      cmd = Some \<lparr> cmd_Path = ''/usr/bin/claude'',
                   cmd_Args = [''/usr/bin/claude'', ''--output-format'', ''stream-json'',
                               ''--verbose'', ''--input-format'', ''stream-json''],
                   cmd_Env = [''CLAUDE_CODE_ENTRYPOINT=sdk-go''], cmd_Dir = [],
                   cmd_Stderr = Some ''/tmp/claude_stderr_1.log'', cmd_Process = Some 4242 \<rparr>,
      stdin_set = True, stdout_set = True, stderrFile = Some ''/tmp/claude_stderr_1.log'',
      connected = True, isStreaming = True, prompt = [], promptChan_set = True,
      closeStdinAfterPrompt = True, receiveDone_closed = False, stdinClosed = False,
      decoders = 0, feeder_running = True, proc = Running,
      temp_files = [''/tmp/claude_stderr_1.log''], panicked = False, effects = [] \<rparr>"
  by (simp add: connected_streaming_def Connect_def buildCommand_def findCLI_def findCLI_run_def
      cmd_Start_def emit_def NewStreamingTransport_def NewSubprocessTransport_def
      example_launch_def claude_os_def example_os_def example_options_def)

lemma Connect_oneshot_ok:
  "Connect (example_launch claude_os) (NewOneShotTransport example_options ''ping'')
     = (connected_oneshot, None)"
  by (simp add: connected_oneshot_def Connect_def buildCommand_def findCLI_def findCLI_run_def
      cmd_Start_def emit_def NewOneShotTransport_def NewSubprocessTransport_def
      example_launch_def claude_os_def example_os_def example_options_def)

text \<open>
  Claim C4 fails on the code. A streaming transport is connected, \<^verbatim>\<open>Receive\<close> is
  called, and \<^verbatim>\<open>Close\<close> is called; the decoder goroutine and the feeder end within the
  grace period. \<^verbatim>\<open>Close\<close> closes the input pipe under the guard \<^verbatim>\<open>stdinClosed\<close>, and
  \<^verbatim>\<open>cleanup\<close> closes it a second time without looking at the guard.
\<close>

theorem Close_closes_stdin_twice:
  "effects (fst (Close graceful_close (fst (Receive connected_streaming))))
     = [CloseStdin, WaitProcess, CloseReceiveDone, CloseMsgChan,
        CloseStdin, CloseStdout, CloseStderrFile, RemoveFile ''/tmp/claude_stderr_1.log''] \<and>
   count_effect CloseStdin (fst (Close graceful_close (fst (Receive connected_streaming)))) = 2"
  by (simp add: connected_streaming_value Close_def close_input_def Receive_def graceful_close_def
      decoder_exit_def feeder_exit_def cleanup_def emit_def count_effect_def)

text \<open>
  Claim C5 fails on the code. A one-shot transport is connected and \<^verbatim>\<open>Close\<close> is called;
  the decoder's completion signal does not arrive and \<^verbatim>\<open>Process.Kill()\<close> returns an
  error. \<^verbatim>\<open>Close\<close> returns that error before it reaches \<^verbatim>\<open>cleanup\<close>: the error-sink
  file is neither closed nor removed.
\<close>

theorem Close_kill_error_skips_cleanup:
  "Connect (example_launch claude_os) (NewOneShotTransport example_options ''ping'')
     = (connected_oneshot, None) \<and>
   temp_files connected_oneshot = [''/tmp/claude_stderr_1.log''] \<and>
   temp_files (fst (Close failed_kill_close connected_oneshot)) = [''/tmp/claude_stderr_1.log''] \<and>
   effects (fst (Close failed_kill_close connected_oneshot))
     = [CloseStdin, GraceTimeout, KillProcess]"
  by (simp add: Connect_oneshot_ok)
     (simp add: connected_oneshot_value Close_def close_input_def failed_kill_close_def
      emit_def)

text \<open>
  Claim C6 as stated fails: the process has exited by itself, \<^verbatim>\<open>Receive\<close> was never
  called, and the kill of the exited process fails; \<^verbatim>\<open>Close\<close> returns that error.
\<close>

theorem Close_after_exit_counterexample:
  "proc (run_events [ProcessExit] connected_oneshot) = Exited \<and>
   connected (run_events [ProcessExit] connected_oneshot) \<and>
   snd (Close failed_kill_close (run_events [ProcessExit] connected_oneshot))
     = Some (OSError ''TerminateProcess: Access is denied.'')"
  by (simp add: connected_oneshot_value Close_def close_input_def failed_kill_close_def emit_def)

text \<open>The premises of C6 hold for a fresh and for a connected one-shot transport.\<close>

theorem Close_returns_witness:
  "\<not> connected (NewOneShotTransport example_options ''ping'') \<and>
   Close forced_close (NewOneShotTransport example_options ''ping'')
     = (NewOneShotTransport example_options ''ping'', None) \<and>
   kill_result forced_close = None \<and> connected connected_oneshot \<and>
   snd (Close forced_close connected_oneshot) = None \<and>
   Close failed_kill_close (fst (Close forced_close connected_oneshot))
     = (fst (Close forced_close connected_oneshot), None) \<and>
   count_effect WaitProcess (fst (Close forced_close connected_oneshot)) = 0 \<and>
   \<not> receiveDone_closed (run_events (during_grace failed_kill_close) (close_input connected_oneshot)) \<and>
   snd (Close failed_kill_close connected_oneshot)
     = Some (OSError ''TerminateProcess: Access is denied.'') \<and>
   count_effect KillProcess (fst (Close failed_kill_close connected_oneshot)) = 1 \<and>
   receiveDone_closed
     (run_events (during_grace graceful_close) (close_input (fst (Receive connected_oneshot)))) \<and>
   snd (Close graceful_close (fst (Receive connected_oneshot))) = None"
proof -
  let ?c = "\<lparr> cmd_Path = ''/usr/bin/claude'',
              cmd_Args = [''/usr/bin/claude'', ''--output-format'', ''stream-json'',
                          ''--verbose'', ''--print'', ''ping''],
              cmd_Env = [''CLAUDE_CODE_ENTRYPOINT=sdk-go''], cmd_Dir = [],
              cmd_Stderr = Some ''/tmp/claude_stderr_1.log'', cmd_Process = Some 4242 \<rparr>"
  have a: "\<not> connected (NewOneShotTransport example_options ''ping'')"
    by (simp add: NewOneShotTransport_def NewSubprocessTransport_def)
  have b: "kill_result forced_close = None" "during_grace forced_close = []"
    "kill_result failed_kill_close = Some (OSError ''TerminateProcess: Access is denied.'')"
    by (simp_all add: forced_close_def failed_kill_close_def)
  have c: "connected connected_oneshot" "count_effect WaitProcess connected_oneshot = 0"
    "count_effect KillProcess connected_oneshot = 0"
    "cmd connected_oneshot = Some ?c" "cmd_Process ?c = Some 4242"
    by (simp_all add: connected_oneshot_value count_effect_def)
  have d: "\<not> receiveDone_closed
              (run_events (during_grace failed_kill_close) (close_input connected_oneshot))"
    by (simp add: connected_oneshot_value failed_kill_close_def close_input_def emit_def)
  have e: "connected (fst (Receive connected_oneshot))"
    "receiveDone_closed
       (run_events (during_grace graceful_close) (close_input (fst (Receive connected_oneshot))))"
    by (simp_all add: connected_oneshot_value Receive_def graceful_close_def close_input_def
        decoder_exit_def feeder_exit_def emit_def)
  from Close_returns [of "NewOneShotTransport example_options ''ping''" forced_close forced_close]
    Close_returns [of connected_oneshot forced_close failed_kill_close]
    Close_returns [where t = connected_oneshot and cenv = failed_kill_close and c = ?c
                     and pid = 4242]
    Close_returns [where t = "fst (Receive connected_oneshot)" and cenv = graceful_close]
    a b c d e
  show ?thesis by simp
qed

text \<open>The premises of C9 hold for the one-shot transport whose process has exited.\<close>

theorem close_without_receive_kills_witness:
  "Connect (example_launch claude_os) (NewOneShotTransport example_options ''ping'')
     = (connected_oneshot, None) \<and>
   count_effect KillProcess (fst (Close forced_close (run_events [ProcessExit] connected_oneshot))) = 1 \<and>
   count_effect GraceTimeout (fst (Close forced_close (run_events [ProcessExit] connected_oneshot))) = 1"
proof -
  let ?t0 = "NewOneShotTransport example_options ''ping'' :: unit transport"
  have a: "\<not> connected ?t0" "decoders ?t0 = 0" "\<not> receiveDone_closed ?t0"
    by (simp_all add: NewOneShotTransport_def NewSubprocessTransport_def)
  have k: "count_effect KillProcess (run_events [ProcessExit] connected_oneshot) = 0"
    "count_effect GraceTimeout (run_events [ProcessExit] connected_oneshot) = 0"
    by (simp_all add: connected_oneshot_value count_effect_def)
  from close_without_receive_kills [OF Connect_oneshot_ok a, of "[ProcessExit]" forced_close] k
    Connect_oneshot_ok
  show ?thesis by simp
qed

subsection \<open>The output decoder: scanning and trimming\<close>

lemma lines_from_line:
  "LF \<notin> set l \<Longrightarrow> lines_from cur (l @ LF # rest) = (cur @ l) # lines_from [] rest"
  by (induction l arbitrary: cur) auto

lemma lines_from_terminated:
  "\<forall>l \<in> set ls. LF \<notin> set l \<Longrightarrow> lines_from [] (concat (map (\<lambda>l. l @ [LF]) ls)) = ls"
proof (induction ls)
  case Nil
  then show ?case by simp
next
  case (Cons l ls)
  then have "lines_from [] (l @ LF # concat (map (\<lambda>l. l @ [LF]) ls)) = l # ls"
    by (simp add: lines_from_line)
  then show ?case by simp
qed

lemma split_from_no_sep: "sep \<notin> set s \<Longrightarrow> split_from sep cur s = [cur @ s]"
  by (induction s arbitrary: cur) auto

lemma strings_Split_no_sep: "sep \<notin> set s \<Longrightarrow> strings_Split s sep = [s]"
  by (simp add: strings_Split_def split_from_no_sep)

lemma set_dropCR: "set (dropCR s) \<subseteq> set s"
  by (auto simp: dropCR_def dest: in_set_butlastD)

lemma length_dropCR: "length (dropCR s) \<le> length s"
  by (simp add: dropCR_def)

lemma length_strip_runes: "length (strip_runes rs k s) \<le> length s"
  by (induction rs k s rule: strip_runes.induct) (auto split: option.splits intro: le_SucI)

lemma length_TrimSpace: "length (TrimSpace s) \<le> length s"
proof -
  have "length (TrimSpace s) \<le> length (strip_runes space_runes 0 s)"
    using length_strip_runes [of "map rev space_runes" 0 "rev (strip_runes space_runes 0 s)"]
    by (simp add: TrimSpace_def)
  also have "\<dots> \<le> length s" by (rule length_strip_runes)
  finally show ?thesis .
qed

lemma TrimSpace_Nil: "TrimSpace [] = []"
  by (simp add: TrimSpace_def)

subsection \<open>The output decoder: one frame per line\<close>

text \<open>One line returned by the scanner, with no newline in it: one piece.\<close>

lemma decode_line_piece:
  "LF \<notin> set line \<Longrightarrow> \<not> returned d \<Longrightarrow>
   decode_line um ctx d line = (if line = [] then d else decode_jsonLine um ctx d line)"
  by (simp add: decode_line_def strings_Split_no_sep)

lemma decode_line_frame:
  assumes "LF \<notin> set line" and "\<not> returned d" and "jsonBuffer d = []"
    and "TrimSpace line \<noteq> []" and "length line \<le> maxBufferSize"
    and "um (TrimSpace line) = Some m" and "\<not> ctx (length (sent d))"
  shows "decode_line um ctx d line
           = (if map_of m ''type'' = Some (JString ''control_response'') then d
              else d \<lparr> sent := sent d @ [m] \<rparr>)"
proof -
  have ne: "line \<noteq> []" using assms(4) by (auto simp: TrimSpace_Nil)
  have len: "\<not> maxBufferSize < length (TrimSpace line)"
    using length_TrimSpace [of line] assms(5) by simp
  show ?thesis
    using assms ne len by (simp add: decode_line_piece decode_jsonLine_def Let_def)
qed

lemma decode_lines_frames:
  assumes "list_all2 (\<lambda>l m. LF \<notin> set l \<and> length l \<le> maxBufferSize \<and> TrimSpace l \<noteq> []
                         \<and> um (TrimSpace l) = Some m) ls ms"
    and "\<forall>k. \<not> ctx k" and "\<not> returned d" and "jsonBuffer d = []"
  shows "decode_lines um ctx d ls
           = d \<lparr> sent := sent d @ filter (\<lambda>m. map_of m ''type'' \<noteq> Some (JString ''control_response'')) ms \<rparr>"
  using assms
proof (induction ls ms arbitrary: d rule: list_all2_induct)
  case Nil
  then show ?case by simp
next
  case (Cons l ls m ms)
  let ?d' = "decode_line um ctx d l"
  have step: "?d' = (if map_of m ''type'' = Some (JString ''control_response'') then d
              else d \<lparr> sent := sent d @ [m] \<rparr>)"
    using Cons.hyps(1) Cons.prems by (intro decode_line_frame) simp_all
  then have inv: "\<not> returned ?d'" "jsonBuffer ?d' = []"
    using Cons.prems by simp_all
  have "decode_lines um ctx d (l # ls) = decode_lines um ctx ?d' ls"
    using Cons.prems by simp
  also have "\<dots> = ?d' \<lparr> sent := sent ?d' @ filter (\<lambda>m. map_of m ''type'' \<noteq> Some (JString ''control_response'')) ms \<rparr>"
    using Cons.IH [OF Cons.prems(1) inv] .
  finally show ?case by (simp add: step)
qed

text \<open>
  Claim C1, amended. Let the subprocess write lines, each ended by a newline, each shorter
  than \<open>maxBufferSize\<close> (1 MiB) and each a well-formed JSON object: without its trailing
  carriage return and the white space around it, the line is not empty and
  \<^verbatim>\<open>json.Unmarshal\<close> decodes it to a message. As long as no delivery finds the context
  done, the goroutine of \<^verbatim>\<open>Receive\<close> sends exactly the decoded messages, in the order
  of the lines, leaving out those whose \<^verbatim>\<open>type\<close> is \<^verbatim>\<open>control_response\<close>; it does
  not return early and the scanner does not fail. This holds for every function
  \<open>um\<close> in the place of \<^verbatim>\<open>json.Unmarshal\<close>.
\<close>

theorem Receive_emits_each_frame:
  assumes "list_all2 (\<lambda>l m. LF \<notin> set l \<and> length l < maxBufferSize
                         \<and> TrimSpace (dropCR l) \<noteq> [] \<and> um (TrimSpace (dropCR l)) = Some m) ls ms"
    and "\<forall>k. \<not> ctx k"
  shows "sent (Receive_loop um ctx (concat (map (\<lambda>l. l @ [LF]) ls)))
           = filter (\<lambda>m. map_of m ''type'' \<noteq> Some (JString ''control_response'')) ms \<and>
         \<not> returned (Receive_loop um ctx (concat (map (\<lambda>l. l @ [LF]) ls))) \<and>
         \<not> Scanner_too_long maxBufferSize (concat (map (\<lambda>l. l @ [LF]) ls))"
proof -
  let ?s = "concat (map (\<lambda>l. l @ [LF]) ls)"
  have a: "\<forall>l \<in> set ls. LF \<notin> set l \<and> length l < maxBufferSize"
    using assms(1) by (auto simp: list_all2_conv_all_nth in_set_conv_nth)
  then have lines: "lines_from [] ?s = ls"
    by (simp add: lines_from_terminated)
  have tw: "takeWhile (\<lambda>l. length l < maxBufferSize) ls = ls"
    using a by (simp add: takeWhile_eq_all_conv)
  have toks: "Scanner_tokens maxBufferSize ?s = map dropCR ls"
    by (simp add: Scanner_tokens_def lines tw)
  have fr: "list_all2 (\<lambda>l m. LF \<notin> set l \<and> length l \<le> maxBufferSize \<and> TrimSpace l \<noteq> []
                         \<and> um (TrimSpace l) = Some m) (map dropCR ls) ms"
  proof -
    have "list_all2 (\<lambda>l m. LF \<notin> set (dropCR l) \<and> length (dropCR l) \<le> maxBufferSize
            \<and> TrimSpace (dropCR l) \<noteq> [] \<and> um (TrimSpace (dropCR l)) = Some m) ls ms"
    proof (rule list_all2_mono [OF assms(1)])
      fix l m
      assume h: "LF \<notin> set l \<and> length l < maxBufferSize
                   \<and> TrimSpace (dropCR l) \<noteq> [] \<and> um (TrimSpace (dropCR l)) = Some m"
      have "LF \<notin> set (dropCR l)" using h set_dropCR [of l] by auto
      moreover have "length (dropCR l) \<le> maxBufferSize"
        using h length_dropCR [of l] by simp
      ultimately show "LF \<notin> set (dropCR l) \<and> length (dropCR l) \<le> maxBufferSize
            \<and> TrimSpace (dropCR l) \<noteq> [] \<and> um (TrimSpace (dropCR l)) = Some m"
        using h by simp
    qed
    then show ?thesis by (simp add: list_all2_map1)
  qed
  have tl: "\<not> Scanner_too_long maxBufferSize ?s"
    using a by (simp add: Scanner_too_long_def lines list_all_iff)
  show ?thesis
    using decode_lines_frames [OF fr assms(2), of "\<lparr> jsonBuffer = [], sent = [], returned = False \<rparr>"] tl
    by (simp add: Receive_loop_def toks)
qed


text \<open>Evaluation of the library models on the concrete frames.\<close>

lemmas json_eval = json_Unmarshal_def idle_char_def cons_token_def word_token_def unescape_def
  is_word_char_def is_digit_def byte_def is_number_def is_fraction_def is_exponent_def

lemma assistant_frame_value:
  "json_Unmarshal assistant_frame = Some [(''type'', JString ''assistant'')]"
  by (simp add: assistant_frame_def quoted_def json_eval)

lemma control_frame_value:
  "json_Unmarshal control_frame = Some [(''type'', JString ''control_response'')]"
  by (simp add: control_frame_def quoted_def json_eval)

lemma result_frame_value:
  "json_Unmarshal result_frame
     = Some [(''type'', JString ''result''), (''session_id'', JString ''s1''),
             (''duration_ms'', JNumber ''120'')]"
  by (simp add: result_frame_def quoted_def json_eval)

lemma frames_plain:
  "LF \<notin> set assistant_frame" "LF \<notin> set control_frame" "LF \<notin> set result_frame"
  "dropCR assistant_frame = assistant_frame" "dropCR control_frame = control_frame"
  "dropCR result_frame = result_frame"
  "TrimSpace assistant_frame = assistant_frame" "TrimSpace control_frame = control_frame"
  "TrimSpace result_frame = result_frame"
  "assistant_frame \<noteq> []" "control_frame \<noteq> []" "result_frame \<noteq> []"
  "length assistant_frame < maxBufferSize" "length control_frame < maxBufferSize"
  "length result_frame < maxBufferSize"
  by (simp_all add: assistant_frame_def control_frame_def result_frame_def quoted_def
      dropCR_def TrimSpace_def space_runes_def maxBufferSize_def)

lemma tokenize_string_replicate:
  "32 \<le> byte c \<Longrightarrow> c \<noteq> DQ \<Longrightarrow> c \<noteq> CHR 0x5C \<Longrightarrow>
   tokenize (LexStr acc False) (replicate n c @ rest)
     = tokenize (LexStr (acc @ replicate n c) False) rest"
proof (induction n arbitrary: acc)
  case 0
  then show ?case by simp
next
  case (Suc n)
  have "tokenize (LexStr acc False) (replicate (Suc n) c @ rest)
          = tokenize (LexStr (acc @ [c]) False) (replicate n c @ rest)"
    using Suc.prems by simp
  also have "\<dots> = tokenize (LexStr ((acc @ [c]) @ replicate n c) False) rest"
    using Suc.prems by (intro Suc.IH)
  finally show ?case by (simp add: replicate_app_Cons_same)
qed

lemma big_object_value:
  "json_Unmarshal big_object = Some [(''a'', JString (replicate maxBufferSize (CHR ''x'')))]"
proof -
  have x: "32 \<le> byte (CHR ''x'')" "CHR ''x'' \<noteq> DQ" "CHR ''x'' \<noteq> CHR 0x5C"
    by (simp_all add: byte_def)
  have "tokenize LexIdle big_object
          = Some [TLBrace, TStr ''a'', TColon, TStr (replicate maxBufferSize (CHR ''x'')), TRBrace]"
    by (simp add: big_object_def quoted_def idle_char_def cons_token_def byte_def
        tokenize_string_replicate [OF x])
  then show ?thesis by (simp add: json_Unmarshal_def)
qed

lemma big_fragment_value: "json_Unmarshal big_fragment = None"
proof -
  have x: "32 \<le> byte (CHR ''x'')" "CHR ''x'' \<noteq> DQ" "CHR ''x'' \<noteq> CHR 0x5C"
    by (simp_all add: byte_def)
  have "tokenize LexIdle big_fragment = None"
    using tokenize_string_replicate [OF x, of "[]" maxBufferSize "[]"]
    by (simp add: big_fragment_def quoted_def idle_char_def cons_token_def byte_def)
  then show ?thesis by (simp add: json_Unmarshal_def)
qed

lemma big_plain:
  "LF \<notin> set big_object" "LF \<notin> set big_fragment"
  "\<not> length big_object < maxBufferSize" "\<not> length big_fragment < maxBufferSize"
  by (simp_all add: big_object_def big_fragment_def quoted_def)


subsection \<open>The output decoder: concrete streams\<close>

lemma Scanner_tokens_lines:
  "\<forall>l \<in> set ls. LF \<notin> set l \<and> length l < cap \<Longrightarrow>
   Scanner_tokens cap (concat (map (\<lambda>l. l @ [LF]) ls)) = map dropCR ls"
proof -
  assume a: "\<forall>l \<in> set ls. LF \<notin> set l \<and> length l < cap"
  then have "lines_from [] (concat (map (\<lambda>l. l @ [LF]) ls)) = ls"
    by (simp add: lines_from_terminated)
  moreover have "takeWhile (\<lambda>l. length l < cap) ls = ls"
    using a by (simp add: takeWhile_eq_all_conv)
  ultimately show ?thesis by (simp only: Scanner_tokens_def)
qed

lemma Scanner_stops_at_long_line:
  "LF \<notin> set l \<Longrightarrow> \<not> length l < cap \<Longrightarrow>
   Scanner_tokens cap (l @ [LF] @ rest) = [] \<and> Scanner_too_long cap (l @ [LF] @ rest)"
  by (simp add: Scanner_tokens_def Scanner_too_long_def lines_from_line)

text \<open>
  The premises of C1 hold for the stream of an assistant frame, a control
  acknowledgement and a result frame: two messages are sent, the second the result frame
  with session \<^verbatim>\<open>s1\<close>.
\<close>

theorem Receive_emits_each_frame_witness:
  "sent (Receive_loop json_Unmarshal background
           (assistant_frame @ [LF] @ control_frame @ [LF] @ result_frame @ [LF]))
     = [[(''type'', JString ''assistant'')],
        [(''type'', JString ''result''), (''session_id'', JString ''s1''),
         (''duration_ms'', JNumber ''120'')]]"
proof -
  have f: "list_all2 (\<lambda>l m. LF \<notin> set l \<and> length l < maxBufferSize
                         \<and> TrimSpace (dropCR l) \<noteq> [] \<and> json_Unmarshal (TrimSpace (dropCR l)) = Some m)
          [assistant_frame, control_frame, result_frame]
          [[(''type'', JString ''assistant'')], [(''type'', JString ''control_response'')],
           [(''type'', JString ''result''), (''session_id'', JString ''s1''),
            (''duration_ms'', JNumber ''120'')]]"
    by (simp add: frames_plain assistant_frame_value control_frame_value result_frame_value)
  have b: "\<forall>k. \<not> background k" by (simp add: background_def)
  from Receive_emits_each_frame [OF f b] show ?thesis by simp
qed

text \<open>
  Claim C1 as stated fails: two well-formed objects are written one per line, the first
  of them longer than the buffer of the scanner; the scanner stops at it and no message
  is sent, not even the second.
\<close>

theorem Receive_emits_each_frame_counterexample:
  "json_Unmarshal big_object = Some [(''a'', JString (replicate maxBufferSize (CHR ''x'')))] \<and>
   json_Unmarshal assistant_frame = Some [(''type'', JString ''assistant'')] \<and>
   LF \<notin> set big_object \<and> LF \<notin> set assistant_frame \<and>
   sent (Receive_loop json_Unmarshal background (big_object @ [LF] @ assistant_frame @ [LF])) = []"
  using Scanner_stops_at_long_line [OF big_plain(1) big_plain(3), of "assistant_frame @ [LF]"]
  by (simp add: big_object_value assistant_frame_value big_plain frames_plain Receive_loop_def)

text \<open>
  Claim C2 fails on the code. The stream is a malformed fragment of more than 1 MiB on
  one line (an object cut off inside a string), followed by a well-formed frame. The
  scanner fails with \<^verbatim>\<open>ErrTooLong\<close> at the first line, the loop ends, and the frame
  after it is never decoded.
\<close>

theorem oversized_line_stops_decoder:
  "json_Unmarshal big_fragment = None \<and>
   json_Unmarshal assistant_frame = Some [(''type'', JString ''assistant'')] \<and>
   Scanner_too_long maxBufferSize (big_fragment @ [LF] @ assistant_frame @ [LF]) \<and>
   Scanner_tokens maxBufferSize (big_fragment @ [LF] @ assistant_frame @ [LF]) = [] \<and>
   sent (Receive_loop json_Unmarshal background (big_fragment @ [LF] @ assistant_frame @ [LF])) = []"
  using Scanner_stops_at_long_line [OF big_plain(2) big_plain(4), of "assistant_frame @ [LF]"]
  by (simp add: big_fragment_value assistant_frame_value Receive_loop_def)

text \<open>
  The other way to exceed the cap does what C2 says: when the fragment comes in lines that
  the scanner accepts and the line \<open>l\<close> makes the buffer longer than \<open>maxBufferSize\<close>,
  the buffer is discarded, and the well-formed frames on the lines after \<open>l\<close> are all
  sent.
\<close>

lemma overflow_discards_and_continues:
  assumes "\<not> returned d" and "LF \<notin> set l" and "TrimSpace l \<noteq> []"
    and "maxBufferSize < length (jsonBuffer d @ TrimSpace l)"
    and "list_all2 (\<lambda>l m. LF \<notin> set l \<and> length l \<le> maxBufferSize \<and> TrimSpace l \<noteq> []
                         \<and> um (TrimSpace l) = Some m) ls ms"
    and "\<forall>k. \<not> ctx k"
  shows "decode_lines um ctx d (l # ls)
           = d \<lparr> jsonBuffer := [],
                 sent := sent d @ filter (\<lambda>m. map_of m ''type'' \<noteq> Some (JString ''control_response'')) ms \<rparr>"
proof -
  have ne: "l \<noteq> []" using assms(3) by (auto simp: TrimSpace_Nil)
  have step: "decode_line um ctx d l = d \<lparr> jsonBuffer := [] \<rparr>"
    using assms(1-4) ne by (simp add: decode_line_piece decode_jsonLine_def Let_def)
  show ?thesis
    using decode_lines_frames [OF assms(5,6), of "d \<lparr> jsonBuffer := [] \<rparr>"] assms(1)
    by (simp add: step)
qed

subsection \<open>The output decoder: a frame split over two lines\<close>

text \<open>
  Claim C3, amended. Let a well-formed JSON object, not a control acknowledgement and
  shorter than \<open>maxBufferSize\<close>, be written as two line fragments \<open>a\<close> and \<open>b\<close>, such
  that trimming the fragments removes nothing that trimming the whole line keeps (no
  white space next to the cut) and the first fragment alone is empty or does not decode.
  Then, if the context is not done at the delivery, exactly one message is sent, and it
  is the message sent when the object arrives on one line.
\<close>

theorem split_frame_emitted_once:
  assumes "TrimSpace (dropCR (a @ b)) \<noteq> []"
    and "um (TrimSpace (dropCR (a @ b))) = Some m"
    and "map_of m ''type'' \<noteq> Some (JString ''control_response'')"
    and "LF \<notin> set a" and "LF \<notin> set b"
    and "length (a @ b) < maxBufferSize"
    and "TrimSpace (dropCR a) @ TrimSpace (dropCR b) = TrimSpace (dropCR (a @ b))"
    and "TrimSpace (dropCR a) = [] \<or> um (TrimSpace (dropCR a)) = None"
    and "\<not> ctx 0"
  shows "sent (Receive_loop um ctx (a @ [LF] @ b @ [LF])) = [m] \<and>
         sent (Receive_loop um ctx (a @ b @ [LF])) = [m]"
proof -
  let ?d0 = "\<lparr> jsonBuffer = [], sent = [], returned = False \<rparr>"
  let ?ta = "TrimSpace (dropCR a)" and ?tb = "TrimSpace (dropCR b)"
  have short: "length a < maxBufferSize" "length b < maxBufferSize"
    using assms(6) by simp_all
  have nl: "LF \<notin> set (dropCR a)" "LF \<notin> set (dropCR b)" "LF \<notin> set (dropCR (a @ b))"
    using assms(4,5) set_dropCR [of a] set_dropCR [of b] set_dropCR [of "a @ b"] by auto
  have len: "\<not> maxBufferSize < length (TrimSpace (dropCR (a @ b)))"
    using length_TrimSpace [of "dropCR (a @ b)"] length_dropCR [of "a @ b"] assms(6) by simp
  have lena: "\<not> maxBufferSize < length ?ta"
    using length_TrimSpace [of "dropCR a"] length_dropCR [of a] short by simp
  have whole: "Scanner_tokens maxBufferSize (a @ b @ [LF]) = [dropCR (a @ b)]"
    using Scanner_tokens_lines [of "[a @ b]" maxBufferSize] assms(4,5,6) by simp
  have ne: "dropCR (a @ b) \<noteq> []"
    using assms(1) by (auto simp: TrimSpace_Nil)
  have one: "sent (Receive_loop um ctx (a @ b @ [LF])) = [m]"
    using assms(1,2,3,9) nl ne len
    by (simp add: Receive_loop_def whole decode_line_piece decode_jsonLine_def Let_def)
  have parts: "Scanner_tokens maxBufferSize (a @ LF # b @ [LF]) = [dropCR a, dropCR b]"
    using Scanner_tokens_lines [of "[a, b]" maxBufferSize] assms(4,5) short by simp
  have tb: "?tb \<noteq> []"
  proof
    assume e: "?tb = []"
    with assms(7) have "?ta = TrimSpace (dropCR (a @ b))" by simp
    with assms(1,2,8) show False by auto
  qed
  then have neb: "dropCR b \<noteq> []" by (auto simp: TrimSpace_Nil)
  define d1 where "d1 = decode_line um ctx ?d0 (dropCR a)"
  have d1: "d1 = ?d0 \<lparr> jsonBuffer := ?ta \<rparr>"
  proof (cases "?ta = []")
    case True
    then show ?thesis
      using nl by (simp add: d1_def decode_line_piece decode_jsonLine_def Let_def)
  next
    case False
    then have "dropCR a \<noteq> []" by (auto simp: TrimSpace_Nil)
    with False assms(8) lena nl show ?thesis
      by (simp add: d1_def decode_line_piece decode_jsonLine_def Let_def)
  qed
  have "decode_line um ctx d1 (dropCR b) = ?d0 \<lparr> sent := [m] \<rparr>"
    using nl neb tb len assms(2,3,7,9)
    by (simp add: d1 decode_line_piece decode_jsonLine_def Let_def)
  then have two: "sent (Receive_loop um ctx (a @ [LF] @ b @ [LF])) = [m]"
    by (simp add: Receive_loop_def parts d1_def [symmetric] d1)
  from one two show ?thesis by simp
qed


text \<open>Evaluation on the object \<^verbatim>\<open>{"a":"x y"}\<close>.\<close>

lemma split_values:
  "json_Unmarshal (split_head @ split_tail) = Some [(''a'', JString ''x y'')]"
  "json_Unmarshal split_head = None"
  "json_Unmarshal cut_head = None"
  "json_Unmarshal (cut_head @ cut_tail) = Some [(''a'', JString ''x y'')]"
  "json_Unmarshal (cut_head @ ''y'' @ [DQ] @ ''}'') = Some [(''a'', JString ''xy'')]"
  by (simp_all add: split_head_def split_tail_def cut_head_def cut_tail_def quoted_def json_eval)

lemma split_plain:
  "LF \<notin> set split_head" "LF \<notin> set split_tail" "LF \<notin> set cut_head" "LF \<notin> set cut_tail"
  "dropCR split_head = split_head" "dropCR split_tail = split_tail"
  "dropCR cut_head = cut_head" "dropCR cut_tail = cut_tail"
  "dropCR (split_head @ split_tail) = split_head @ split_tail"
  "dropCR (cut_head @ cut_tail) = cut_head @ cut_tail"
  "TrimSpace split_head = split_head" "TrimSpace split_tail = split_tail"
  "TrimSpace (split_head @ split_tail) = split_head @ split_tail"
  "TrimSpace cut_head = cut_head" "TrimSpace cut_tail = ''y'' @ [DQ] @ ''}''"
  "TrimSpace (cut_head @ cut_tail) = cut_head @ cut_tail"
  "length (split_head @ split_tail) < maxBufferSize"
  "length (cut_head @ cut_tail) < maxBufferSize"
  by (simp_all add: split_head_def split_tail_def cut_head_def cut_tail_def quoted_def
      dropCR_def TrimSpace_def space_runes_def maxBufferSize_def)

lemma cut_is_split: "cut_head @ cut_tail = split_head @ split_tail"
  by (simp add: split_head_def split_tail_def cut_head_def cut_tail_def quoted_def)

text \<open>The premises of C3 hold when the object is cut after the colon.\<close>

theorem split_frame_emitted_once_witness:
  "sent (Receive_loop json_Unmarshal background (split_head @ [LF] @ split_tail @ [LF]))
     = [[(''a'', JString ''x y'')]] \<and>
   sent (Receive_loop json_Unmarshal background (split_head @ split_tail @ [LF]))
     = [[(''a'', JString ''x y'')]]"
proof (rule split_frame_emitted_once)
  show "TrimSpace (dropCR (split_head @ split_tail)) \<noteq> []"
    by (simp add: split_plain) (simp add: split_head_def)
  show "json_Unmarshal (TrimSpace (dropCR (split_head @ split_tail))) = Some [(''a'', JString ''x y'')]"
    by (simp add: split_plain split_values)
  show "map_of [(''a'', JString ''x y'')] ''type'' \<noteq> Some (JString ''control_response'')"
    by simp
  show "LF \<notin> set split_head" "LF \<notin> set split_tail"
    by (simp_all add: split_plain)
  show "length (split_head @ split_tail) < maxBufferSize"
    by (rule split_plain)
  show "TrimSpace (dropCR split_head) @ TrimSpace (dropCR split_tail)
          = TrimSpace (dropCR (split_head @ split_tail))"
    by (simp add: split_plain)
  show "TrimSpace (dropCR split_head) = [] \<or> json_Unmarshal (TrimSpace (dropCR split_head)) = None"
    by (simp add: split_plain split_values)
  show "\<not> background 0"
    by (simp add: background_def)
qed

text \<open>
  Claim C3 as stated fails: cut inside the string, before the blank, the two fragments
  \<^verbatim>\<open>{"a":"x\<close> and \<^verbatim>\<open> y"}\<close> are trimmed one by one, the blank is lost, and the message
  sent carries \<^verbatim>\<open>xy\<close> where the unsplit object carries \<^verbatim>\<open>x y\<close>.
\<close>

theorem split_frame_counterexample:
  "cut_head @ cut_tail = split_head @ split_tail \<and>
   json_Unmarshal (cut_head @ cut_tail) = Some [(''a'', JString ''x y'')] \<and>
   sent (Receive_loop json_Unmarshal background (cut_head @ cut_tail @ [LF]))
     = [[(''a'', JString ''x y'')]] \<and>
   sent (Receive_loop json_Unmarshal background (cut_head @ [LF] @ cut_tail @ [LF]))
     = [[(''a'', JString ''xy'')]]"
proof -
  have short: "length cut_head < maxBufferSize" "length cut_tail < maxBufferSize"
    using split_plain(18) by simp_all
  have whole: "Scanner_tokens maxBufferSize (cut_head @ cut_tail @ [LF]) = [cut_head @ cut_tail]"
    using Scanner_tokens_lines [of "[cut_head @ cut_tail]" maxBufferSize] split_plain(18)
    by (simp add: split_plain(1-16))
  have parts: "Scanner_tokens maxBufferSize (cut_head @ LF # cut_tail @ [LF]) = [cut_head, cut_tail]"
    using Scanner_tokens_lines [of "[cut_head, cut_tail]" maxBufferSize] short
    by (simp add: split_plain)
  have ne: "cut_head \<noteq> []" "cut_tail \<noteq> []" "cut_head @ cut_tail \<noteq> []"
    by (simp_all add: cut_head_def cut_tail_def)
  have len: "\<not> maxBufferSize < length (cut_head @ cut_tail)"
    "\<not> maxBufferSize < length cut_head"
    "\<not> maxBufferSize < length (cut_head @ ''y'' @ [DQ] @ ''}'')"
    by (simp_all add: cut_head_def cut_tail_def quoted_def maxBufferSize_def)
  have one: "sent (Receive_loop json_Unmarshal background (cut_head @ cut_tail @ [LF]))
     = [[(''a'', JString ''x y'')]]"
    using ne len
    by (simp add: Receive_loop_def whole decode_line_piece decode_jsonLine_def Let_def
        split_plain split_values background_def del: append_assoc)
  have two: "sent (Receive_loop json_Unmarshal background (cut_head @ [LF] @ cut_tail @ [LF]))
     = [[(''a'', JString ''xy'')]]"
    using ne len split_values(3,5)
    by (simp add: Receive_loop_def parts decode_line_piece decode_jsonLine_def Let_def
        split_plain background_def)
  from one two cut_is_split split_values(4) show ?thesis by simp
qed

end
